theory Spec2Isabelle
  imports Main "HOL-Library.AList"
begin

section \<open>Asynchronous export jobs of formshare.apps.viewer.tasks\<close>

text \<open>
  The module \<^verbatim>\<open>formshare/apps/viewer/tasks.py\<close> dispatches export jobs, wraps the
  format generators in Celery tasks, cleans exports up and reports the state of the
  Mongo synchronisation. The functions of the module are embedded below as state
  transformers over a \<open>world\<close>: the table of export records, the counters that hand out
  record and task identifiers, and the ordered trace of every call the module makes to a
  collaborator (record store, generators, scheduler, error reporter, mailer, sync probe).
  A raised exception is the \<open>Inl\<close> of the result, a returned value its \<open>Inr\<close>.
\<close>

subsection \<open>Python values and exceptions\<close>

text \<open>The values that travel through option mappings and keyword arguments.\<close>

datatype pyval = PNone | PBool bool | PInt int | PStr string

text \<open>Python's truth value of such a value, as \<^verbatim>\<open>if not force_xlsx\<close> takes it.\<close>

fun truthy :: "pyval \<Rightarrow> bool" where
  "truthy PNone = False"
| "truthy (PBool b) = b"
| "truthy (PInt i) = (i \<noteq> 0)"
| "truthy (PStr s) = (s \<noteq> [])"

text \<open>
  The exceptions (instances of Python's \<^verbatim>\<open>Exception\<close>) that occur in the module:
  \<^verbatim>\<open>Export.DoesNotExist\<close>, \<^verbatim>\<open>Export.ExportTypeError\<close>, \<^verbatim>\<open>NoRecordsFoundError\<close>,
  \<^verbatim>\<open>requests.ConnectionError\<close>, the \<^verbatim>\<open>TypeError\<close> of a call that does not fit the
  signature of a task, and any other exception, named by a string.
\<close>

datatype exc =
    DoesNotExist
  | ExportTypeError
  | NoRecordsFoundError
  | ConnectionError
  | TypeError
  | OtherException string

subsection \<open>Export records\<close>

text \<open>
  The constants \<^verbatim>\<open>Export.XLS_EXPORT\<close>, ... of the export model; \<open>UNSUPPORTED s\<close> is any
  other value \<open>s\<close> a caller may pass as export type.
\<close>

datatype export_type =
    XLS_EXPORT
  | GDOC_EXPORT
  | CSV_EXPORT
  | CSV_ZIP_EXPORT
  | SAV_ZIP_EXPORT
  | ZIP_EXPORT
  | KML_EXPORT
  | EXTERNAL_EXPORT
  | UNSUPPORTED string

datatype status = PENDING | FAILED

record xform =
  xform_username :: string
  xform_id_string :: string

text \<open>
  Modelled from the spec: the export model \<^verbatim>\<open>formshare.apps.viewer.models.export.Export\<close>
  is not part of the sources at hand. An ExportRecord has a unique id, an export type, an
  internal status (pending at creation), the task identifier (unset until the scheduler
  confirms the job), the form it belongs to and the output the generator attaches.
\<close>

record export =
  export_pk :: int
  export_xform :: xform
  export_type :: export_type
  internal_status :: status
  task_id :: "nat option"
  filename :: "string option"

text \<open>
  A Python dictionary with string keys (an options mapping, the keyword arguments of a
  task): an association list, read with \<open>map_of\<close> and written with \<open>AList.update\<close>.
\<close>

type_synonym dict = "(string \<times> pyval) list"

type_synonym kwargs = dict

subsection \<open>Calls to collaborators\<close>

text \<open>
  A call of one of the four format generators of \<^verbatim>\<open>formshare.libs.utils.export_tools\<close>,
  with its positional arguments in the order of the source.
\<close>

datatype gen_call =
    generate_export export_type string string string int pyval pyval pyval pyval
  | generate_attachments_zip_export export_type string string string int pyval
  | generate_kml_export export_type string string string int pyval
  | generate_external_export export_type string string int pyval pyval pyval

text \<open>The Celery tasks the module declares with \<^verbatim>\<open>@task()\<close>.\<close>

datatype job =
    XlsTask
  | CsvTask
  | KmlTask
  | ZipTask
  | CsvZipTask
  | SavZipTask
  | ExternalTask
  | DeleteTask

text \<open>
  One entry of the trace per call to a collaborator:
  \<^item> \<open>EvCreate e\<close>: \<^verbatim>\<open>Export.objects.create\<close> stored the new record \<open>e\<close>;
  \<^item> \<open>EvGet i r\<close>: \<^verbatim>\<open>Export.objects.get(id=i)\<close> found \<open>r\<close> (or nothing);
  \<^item> \<open>EvSave e\<close>: \<^verbatim>\<open>e.save()\<close>; \<open>EvDelete e\<close>: \<^verbatim>\<open>e.delete()\<close>;
  \<^item> \<open>EvGenerate c\<close>: a format generator was called;
  \<^item> \<open>EvSubmit j kw n\<close>: \<^verbatim>\<open>j.apply_async((), kw, countdown=n)\<close>;
  \<^item> \<open>EvReport s e b\<close>: \<^verbatim>\<open>report_exception(s, e)\<close>, with \<^verbatim>\<open>sys.exc_info()\<close> iff \<open>b\<close>;
  \<^item> \<open>EvMail s b\<close>: \<^verbatim>\<open>mail_admins(s, b)\<close>;
  \<^item> \<open>EvSyncStatus r\<close>: \<^verbatim>\<open>mongo_sync_status(remongo=r)\<close>.
\<close>

datatype event =
    EvCreate export
  | EvGet int "export option"
  | EvSave export
  | EvDelete export
  | EvGenerate gen_call
  | EvSubmit job kwargs nat
  | EvReport string exc bool
  | EvMail string string
  | EvSyncStatus bool

record world =
  db :: "int \<rightharpoonup> export"
  next_pk :: int
  next_task :: nat
  trace :: "event list"

text \<open>The events a run from \<open>w\<close> to \<open>w'\<close> has added to the trace.\<close>

definition new_events :: "world \<Rightarrow> world \<Rightarrow> event list" where
  "new_events w w' = drop (length (trace w)) (trace w')"

definition emit :: "event \<Rightarrow> world \<Rightarrow> world" where
  "emit ev w = w\<lparr>trace := trace w @ [ev]\<rparr>"

subsection \<open>The Export Record Store\<close>

text \<open>
  Modelled from the spec: the record store offers \<^verbatim>\<open>create(form, export_type) -> record\<close>,
  \<^verbatim>\<open>get(id) -> record | NotFound\<close>, \<^verbatim>\<open>save(record)\<close> and \<^verbatim>\<open>delete(record)\<close>. A record read
  from the table carries the key it was read under as its id.
\<close>

definition objects_create :: "xform \<Rightarrow> export_type \<Rightarrow> world \<Rightarrow> export \<times> world" where
  "objects_create xf t w =
     (let e = \<lparr>export_pk = next_pk w, export_xform = xf, export_type = t,
               internal_status = PENDING, task_id = None, filename = None\<rparr>
      in (e, emit (EvCreate e) (w\<lparr>db := (db w)(next_pk w \<mapsto> e), next_pk := next_pk w + 1\<rparr>)))"

definition objects_get :: "int \<Rightarrow> world \<Rightarrow> (exc + export) \<times> world" where
  "objects_get i w =
     (case db w i of
        None \<Rightarrow> (Inl DoesNotExist, emit (EvGet i None) w)
      | Some r \<Rightarrow> (let e = r\<lparr>export_pk := i\<rparr> in (Inr e, emit (EvGet i (Some e)) w)))"

definition save :: "export \<Rightarrow> world \<Rightarrow> world" where
  "save e w = emit (EvSave e) (w\<lparr>db := (db w)(export_pk e \<mapsto> e)\<rparr>)"

definition delete :: "export \<Rightarrow> world \<Rightarrow> world" where
  "delete e w = emit (EvDelete e) (w\<lparr>db := (db w)(export_pk e := None)\<rparr>)"

subsection \<open>Settings and collaborators\<close>

text \<open>
  The settings the module reads from \<^verbatim>\<open>django.conf.settings\<close>, and
  \<^verbatim>\<open>CELERY_EAGER_PROPAGATES_EXCEPTIONS\<close>, which decides what a task run eagerly does
  with an exception.
\<close>

record config =
  CELERY_ALWAYS_EAGER :: bool
  CELERY_EAGER_PROPAGATES_EXCEPTIONS :: bool
  TESTING_MODE :: bool
  ZIP_EXPORT_COUNTDOWN :: nat

text \<open>
  Modelled from the spec: the format generators of \<^verbatim>\<open>formshare.libs.utils.export_tools\<close>
  and \<^verbatim>\<open>mongo_sync_status\<close> of \<^verbatim>\<open>formshare.libs.utils.logger_tools\<close> are not part of
  the sources at hand, so they are parameters. A format generator reads and writes the
  table of export records and returns a record-like object with an id, or raises the
  "no records found" signal or any other error; \<^verbatim>\<open>mongo_sync_status(remongo)\<close> returns
  the text of a report, or raises.
\<close>

record collaborators =
  generate :: "gen_call \<Rightarrow> (int \<rightharpoonup> export) \<Rightarrow> (exc + export) \<times> (int \<rightharpoonup> export)"
  mongo_sync_status :: "bool \<Rightarrow> exc + string"

definition call_generator :: "collaborators \<Rightarrow> gen_call \<Rightarrow> world \<Rightarrow> (exc + export) \<times> world" where
  "call_generator col c w =
     (case generate col c (db w) of (r, d) \<Rightarrow> (r, emit (EvGenerate c) (w\<lparr>db := d\<rparr>)))"

text \<open>
  Modelled from the spec: \<^verbatim>\<open>report_exception\<close> of \<^verbatim>\<open>formshare.libs.utils.logger_tools\<close>
  is not part of the sources at hand; it sends the operators a report made of the
  subject, the exception and the stack context it is given. \<^verbatim>\<open>mail_admins\<close> is the
  mailer of Django. Both are recorded in the trace.
\<close>

definition report_exception :: "string \<Rightarrow> exc \<Rightarrow> bool \<Rightarrow> world \<Rightarrow> world" where
  "report_exception subject e with_exc_info w = emit (EvReport subject e with_exc_info) w"


subsection \<open>Formatting the subject of a report\<close>

fun str_nat :: "nat \<Rightarrow> string" where
  "str_nat n =
     (if n < 10 then [''0123456789'' ! n]
      else str_nat (n div 10) @ [''0123456789'' ! (n mod 10)])"

declare str_nat.simps [simp del]

definition str_int :: "int \<Rightarrow> string" where
  "str_int i = (if i < 0 then CHR ''-'' # str_nat (nat (- i)) else str_nat (nat i))"

text \<open>
  \<^verbatim>\<open>label + "%(export_id)s, /%(username)s/%(id_string)s" % details\<close>, where \<open>label\<close>
  is the part of the format string that differs between the wrappers.
\<close>

definition format_details :: "string \<Rightarrow> int \<Rightarrow> string \<Rightarrow> string \<Rightarrow> string" where
  "format_details label export_id username id_string =
     label @ str_int export_id @ '', /'' @ username @ ''/'' @ id_string"

text \<open>
  The integer that a decimal numeral denotes, with an optional minus sign in front: what
  a reader of a report makes of the digits \<open>str_int\<close> writes.
\<close>

definition digit_value :: "char \<Rightarrow> nat" where
  "digit_value c = (case map_of (zip ''0123456789'' [0 ..< 10]) c of None \<Rightarrow> 0 | Some n \<Rightarrow> n)"

definition nat_of_decimal :: "string \<Rightarrow> nat" where
  "nat_of_decimal s = foldl (\<lambda>n c. 10 * n + digit_value c) 0 s"

definition int_of_decimal :: "string \<Rightarrow> int" where
  "int_of_decimal s =
     (case s of
        [] \<Rightarrow> 0
      | c # r \<Rightarrow> (if c = CHR ''-'' then - int (nat_of_decimal r) else int (nat_of_decimal s)))"


subsection \<open>The Job Scheduler\<close>

record async_result =
  result_task_id :: nat

text \<open>
  Modelled from the spec: the scheduler offers \<^verbatim>\<open>submit(job, args, delay) -> handle{task_id}\<close>
  and has a test mode in which the submission executes the job synchronously in the calling
  context before it returns. \<open>body\<close> is the function the task wraps. Run eagerly, an
  exception of the job reaches the caller only if the settings say so; otherwise it is
  kept in the handle, of which the module reads the task identifier only.
\<close>

definition apply_async ::
  "config \<Rightarrow> job \<Rightarrow> (kwargs \<Rightarrow> world \<Rightarrow> (exc + 'r) \<times> world) \<Rightarrow> kwargs \<Rightarrow> nat \<Rightarrow> world
   \<Rightarrow> (exc + async_result) \<times> world" where
  "apply_async cfg j body kw countdown w =
     (let result = \<lparr>result_task_id = next_task w\<rparr>;
          w1 = emit (EvSubmit j kw countdown) (w\<lparr>next_task := next_task w + 1\<rparr>)
      in if CELERY_ALWAYS_EAGER cfg then
           (case body kw w1 of
              (Inl x, w2) \<Rightarrow>
                (if CELERY_EAGER_PROPAGATES_EXCEPTIONS cfg then (Inl x, w2) else (Inr result, w2))
            | (Inr r, w2) \<Rightarrow> (Inr result, w2))
         else (Inr result, w1))"

text \<open>
  Calling a task function with keyword arguments: every parameter without a default
  must be given and no key may be unknown, or Python raises \<^verbatim>\<open>TypeError\<close>.
\<close>

definition accepts :: "string list \<Rightarrow> string list \<Rightarrow> kwargs \<Rightarrow> bool" where
  "accepts required optional kw =
     (set required \<subseteq> set (map fst kw) \<and> set (map fst kw) \<subseteq> set (required @ optional))"

definition kw_default :: "kwargs \<Rightarrow> string \<Rightarrow> pyval \<Rightarrow> pyval" where
  "kw_default kw k d = (case map_of kw k of None \<Rightarrow> d | Some v \<Rightarrow> v)"

subsection \<open>The cleanup job\<close>

text \<open>
  \<^verbatim>\<open>
  @task()
  def delete_export(export_id):
      try:
          export = Export.objects.get(id=export_id)
      except Export.DoesNotExist:
          pass
      else:
          export.delete()
          return True
      return False
  \<close>
\<close>

definition delete_export :: "int \<Rightarrow> world \<Rightarrow> (exc + bool) \<times> world" where
  "delete_export export_id w =
     (case objects_get export_id w of
        (Inl x, w1) \<Rightarrow> (if x = DoesNotExist then (Inr False, w1) else (Inl x, w1))
      | (Inr export, w1) \<Rightarrow> (Inr True, delete export w1))"

text \<open>The task called with keyword arguments; the record id is an integer.\<close>

definition call_delete_export :: "kwargs \<Rightarrow> world \<Rightarrow> (exc + bool) \<times> world" where
  "call_delete_export kw w =
     (if \<not> accepts [''export_id''] [] kw then (Inl TypeError, w)
      else case map_of kw ''export_id'' of
             Some (PInt export_id) \<Rightarrow> delete_export export_id w
           | _ \<Rightarrow> (Inl TypeError, w))"

subsection \<open>The job wrappers\<close>

text \<open>
  Each wrapper returns \<open>Inr (Some i)\<close> for \<^verbatim>\<open>return gen_export.id\<close>, \<open>Inr None\<close> where
  the Python returns \<^verbatim>\<open>None\<close>, and \<open>Inl e\<close> where the exception \<open>e\<close> leaves it.

  \<^verbatim>\<open>create_xls_export\<close> (lines 89 to 126) is the one wrapper that catches
  \<^verbatim>\<open>Export.DoesNotExist\<close>; its handler \<^verbatim>\<open>except (Exception, NoRecordsFoundError) as e\<close>
  marks the record, reports and re-raises.
\<close>

definition create_xls_export ::
  "collaborators \<Rightarrow> string \<Rightarrow> string \<Rightarrow> int \<Rightarrow> pyval \<Rightarrow> pyval \<Rightarrow> pyval \<Rightarrow> pyval \<Rightarrow> pyval
   \<Rightarrow> world \<Rightarrow> (exc + int option) \<times> world" where
  "create_xls_export col username id_string export_id query force_xlsx group_delimiter
     split_select_multiples binary_select_multiples w =
     (let ext = (if \<not> truthy force_xlsx then ''xls'' else ''xlsx'')
      in case objects_get export_id w of
           (Inl x, w1) \<Rightarrow> (if x = DoesNotExist then (Inr None, w1) else (Inl x, w1))
         | (Inr export, w1) \<Rightarrow>
             (case call_generator col
                     (generate_export XLS_EXPORT ext username id_string export_id query
                        group_delimiter split_select_multiples binary_select_multiples) w1 of
                (Inl e, w2) \<Rightarrow>
                  (let export = export\<lparr>internal_status := FAILED\<rparr>;
                       w3 = save export w2;
                       w4 = report_exception
                              (format_details ''XLS Export Exception: Export ID - ''
                                 export_id username id_string) e True w3
                   in (Inl e, w4))
              | (Inr gen_export, w2) \<Rightarrow> (Inr (Some (export_pk gen_export)), w2)))"

text \<open>
  \<^verbatim>\<open>create_csv_export\<close> (lines 129 to 161) reads the record outside any \<^verbatim>\<open>try\<close>, and
  has a handler of its own for \<^verbatim>\<open>NoRecordsFoundError\<close>, which neither reports nor
  re-raises: the function ends there and returns \<^verbatim>\<open>None\<close>.
\<close>

definition create_csv_export ::
  "collaborators \<Rightarrow> string \<Rightarrow> string \<Rightarrow> int \<Rightarrow> pyval \<Rightarrow> pyval \<Rightarrow> pyval \<Rightarrow> pyval
   \<Rightarrow> world \<Rightarrow> (exc + int option) \<times> world" where
  "create_csv_export col username id_string export_id query group_delimiter
     split_select_multiples binary_select_multiples w =
     (case objects_get export_id w of
        (Inl x, w1) \<Rightarrow> (Inl x, w1)
      | (Inr export, w1) \<Rightarrow>
          (case call_generator col
                  (generate_export CSV_EXPORT ''csv'' username id_string export_id query
                     group_delimiter split_select_multiples binary_select_multiples) w1 of
             (Inl e, w2) \<Rightarrow>
               (if e = NoRecordsFoundError then
                  (let export = export\<lparr>internal_status := FAILED\<rparr>;
                       w3 = save export w2
                   in (Inr None, w3))
                else
                  (let export = export\<lparr>internal_status := FAILED\<rparr>;
                       w3 = save export w2;
                       w4 = report_exception
                              (format_details ''CSV Export Exception: Export ID - ''
                                 export_id username id_string) e True w3
                   in (Inl e, w4)))
           | (Inr gen_export, w2) \<Rightarrow> (Inr (Some (export_pk gen_export)), w2)))"

text \<open>\<^verbatim>\<open>create_kml_export\<close> (lines 164 to 189).\<close>

definition create_kml_export ::
  "collaborators \<Rightarrow> string \<Rightarrow> string \<Rightarrow> int \<Rightarrow> pyval \<Rightarrow> world \<Rightarrow> (exc + int option) \<times> world" where
  "create_kml_export col username id_string export_id query w =
     (case objects_get export_id w of
        (Inl x, w1) \<Rightarrow> (Inl x, w1)
      | (Inr export, w1) \<Rightarrow>
          (case call_generator col
                  (generate_kml_export KML_EXPORT ''kml'' username id_string export_id query) w1 of
             (Inl e, w2) \<Rightarrow>
               (let export = export\<lparr>internal_status := FAILED\<rparr>;
                    w3 = save export w2;
                    w4 = report_exception
                           (format_details ''KML Export Exception: Export ID - ''
                              export_id username id_string) e True w3
                in (Inl e, w4))
           | (Inr gen_export, w2) \<Rightarrow> (Inr (Some (export_pk gen_export)), w2)))"

text \<open>
  \<^verbatim>\<open>create_zip_export\<close> (lines 192 to 216) reports without \<^verbatim>\<open>sys.exc_info()\<close> and, on
  success outside the testing mode, submits \<^verbatim>\<open>delete_export\<close> for the generated
  export with the countdown of the settings. The submission stands in the \<^verbatim>\<open>else\<close> of
  the \<^verbatim>\<open>try\<close>, so an exception of it is not handled.
\<close>

definition create_zip_export ::
  "config \<Rightarrow> collaborators \<Rightarrow> string \<Rightarrow> string \<Rightarrow> int \<Rightarrow> pyval
   \<Rightarrow> world \<Rightarrow> (exc + int option) \<times> world" where
  "create_zip_export cfg col username id_string export_id query w =
     (case objects_get export_id w of
        (Inl x, w1) \<Rightarrow> (Inl x, w1)
      | (Inr export, w1) \<Rightarrow>
          (case call_generator col
                  (generate_attachments_zip_export ZIP_EXPORT ''zip'' username id_string
                     export_id query) w1 of
             (Inl e, w2) \<Rightarrow>
               (let export = export\<lparr>internal_status := FAILED\<rparr>;
                    w3 = save export w2;
                    w4 = report_exception
                           (format_details ''Zip Export Exception: Export ID - ''
                              export_id username id_string) e False w3
                in (Inl e, w4))
           | (Inr gen_export, w2) \<Rightarrow>
               (if \<not> TESTING_MODE cfg then
                  (case apply_async cfg DeleteTask call_delete_export
                          [(''export_id'', PInt (export_pk gen_export))]
                          (ZIP_EXPORT_COUNTDOWN cfg) w2 of
                     (Inl x, w3) \<Rightarrow> (Inl x, w3)
                   | (Inr r, w3) \<Rightarrow> (Inr (Some (export_pk gen_export)), w3))
                else (Inr (Some (export_pk gen_export)), w2))))"

text \<open>\<^verbatim>\<open>create_csv_zip_export\<close> (lines 219 to 245).\<close>

definition create_csv_zip_export ::
  "collaborators \<Rightarrow> string \<Rightarrow> string \<Rightarrow> int \<Rightarrow> pyval \<Rightarrow> pyval \<Rightarrow> pyval \<Rightarrow> pyval
   \<Rightarrow> world \<Rightarrow> (exc + int option) \<times> world" where
  "create_csv_zip_export col username id_string export_id query group_delimiter
     split_select_multiples binary_select_multiples w =
     (case objects_get export_id w of
        (Inl x, w1) \<Rightarrow> (Inl x, w1)
      | (Inr export, w1) \<Rightarrow>
          (case call_generator col
                  (generate_export CSV_ZIP_EXPORT ''zip'' username id_string export_id query
                     group_delimiter split_select_multiples binary_select_multiples) w1 of
             (Inl e, w2) \<Rightarrow>
               (let export = export\<lparr>internal_status := FAILED\<rparr>;
                    w3 = save export w2;
                    w4 = report_exception
                           (format_details ''CSV ZIP Export Exception: Export ID - ''
                              export_id username id_string) e True w3
                in (Inl e, w4))
           | (Inr gen_export, w2) \<Rightarrow> (Inr (Some (export_pk gen_export)), w2)))"

text \<open>\<^verbatim>\<open>create_sav_zip_export\<close> (lines 248 to 275).\<close>

definition create_sav_zip_export ::
  "collaborators \<Rightarrow> string \<Rightarrow> string \<Rightarrow> int \<Rightarrow> pyval \<Rightarrow> pyval \<Rightarrow> pyval \<Rightarrow> pyval
   \<Rightarrow> world \<Rightarrow> (exc + int option) \<times> world" where
  "create_sav_zip_export col username id_string export_id query group_delimiter
     split_select_multiples binary_select_multiples w =
     (case objects_get export_id w of
        (Inl x, w1) \<Rightarrow> (Inl x, w1)
      | (Inr export, w1) \<Rightarrow>
          (case call_generator col
                  (generate_export SAV_ZIP_EXPORT ''zip'' username id_string export_id query
                     group_delimiter split_select_multiples binary_select_multiples) w1 of
             (Inl e, w2) \<Rightarrow>
               (let export = export\<lparr>internal_status := FAILED\<rparr>;
                    w3 = save export w2;
                    w4 = report_exception
                           (format_details ''SAV ZIP Export Exception: Export ID - ''
                              export_id username id_string) e True w3
                in (Inl e, w4))
           | (Inr gen_export, w2) \<Rightarrow> (Inr (Some (export_pk gen_export)), w2)))"

text \<open>
  \<^verbatim>\<open>create_external_export\<close> (lines 278 to 303); its handler
  \<^verbatim>\<open>except (Exception, NoRecordsFoundError, ConnectionError) as e\<close> catches every
  exception.
\<close>

definition create_external_export ::
  "collaborators \<Rightarrow> string \<Rightarrow> string \<Rightarrow> int \<Rightarrow> pyval \<Rightarrow> pyval \<Rightarrow> pyval
   \<Rightarrow> world \<Rightarrow> (exc + int option) \<times> world" where
  "create_external_export col username id_string export_id query token meta w =
     (case objects_get export_id w of
        (Inl x, w1) \<Rightarrow> (Inl x, w1)
      | (Inr export, w1) \<Rightarrow>
          (case call_generator col
                  (generate_external_export EXTERNAL_EXPORT username id_string export_id
                     token query meta) w1 of
             (Inl e, w2) \<Rightarrow>
               (let export = export\<lparr>internal_status := FAILED\<rparr>;
                    w3 = save export w2;
                    w4 = report_exception
                           (format_details ''External Export Exception: Export ID - ''
                              export_id username id_string) e True w3
                in (Inl e, w4))
           | (Inr gen_export, w2) \<Rightarrow> (Inr (Some (export_pk gen_export)), w2)))"

subsection \<open>The wrappers as tasks\<close>

text \<open>
  The scheduler calls a task with the keyword arguments of the submission; parameters
  that are not given take the defaults of the \<^verbatim>\<open>def\<close>. The wrappers above take the
  owner and the form identifier as strings and the record id as an integer, which is
  what the dispatcher passes. Python checks no types at a call: keyword arguments with
  other kinds of values for these three would run the wrapper with them. Such a call
  has no counterpart in the typed wrappers; \<open>required_args\<close> gives \<open>None\<close> for it, the
  call is answered like one that does not fit the signature, and no property below is
  about it.
\<close>

definition required_args :: "kwargs \<Rightarrow> (string \<times> string \<times> int) option" where
  "required_args kw =
     (case (map_of kw ''username'', map_of kw ''id_string'', map_of kw ''export_id'') of
        (Some (PStr username), Some (PStr id_string), Some (PInt export_id)) \<Rightarrow>
          Some (username, id_string, export_id)
      | _ \<Rightarrow> None)"

definition call_create_xls_export ::
  "collaborators \<Rightarrow> kwargs \<Rightarrow> world \<Rightarrow> (exc + int option) \<times> world" where
  "call_create_xls_export col kw w =
     (if \<not> accepts [''username'', ''id_string'', ''export_id'']
              [''query'', ''force_xlsx'', ''group_delimiter'', ''split_select_multiples'',
               ''binary_select_multiples''] kw
      then (Inl TypeError, w)
      else case required_args kw of
             None \<Rightarrow> (Inl TypeError, w)
           | Some (username, id_string, export_id) \<Rightarrow>
               create_xls_export col username id_string export_id
                 (kw_default kw ''query'' PNone)
                 (kw_default kw ''force_xlsx'' (PBool True))
                 (kw_default kw ''group_delimiter'' (PStr ''/''))
                 (kw_default kw ''split_select_multiples'' (PBool True))
                 (kw_default kw ''binary_select_multiples'' (PBool False)) w)"

definition call_create_csv_export ::
  "collaborators \<Rightarrow> kwargs \<Rightarrow> world \<Rightarrow> (exc + int option) \<times> world" where
  "call_create_csv_export col kw w =
     (if \<not> accepts [''username'', ''id_string'', ''export_id'']
              [''query'', ''group_delimiter'', ''split_select_multiples'',
               ''binary_select_multiples''] kw
      then (Inl TypeError, w)
      else case required_args kw of
             None \<Rightarrow> (Inl TypeError, w)
           | Some (username, id_string, export_id) \<Rightarrow>
               create_csv_export col username id_string export_id
                 (kw_default kw ''query'' PNone)
                 (kw_default kw ''group_delimiter'' (PStr ''/''))
                 (kw_default kw ''split_select_multiples'' (PBool True))
                 (kw_default kw ''binary_select_multiples'' (PBool False)) w)"

definition call_create_kml_export ::
  "collaborators \<Rightarrow> kwargs \<Rightarrow> world \<Rightarrow> (exc + int option) \<times> world" where
  "call_create_kml_export col kw w =
     (if \<not> accepts [''username'', ''id_string'', ''export_id''] [''query''] kw
      then (Inl TypeError, w)
      else case required_args kw of
             None \<Rightarrow> (Inl TypeError, w)
           | Some (username, id_string, export_id) \<Rightarrow>
               create_kml_export col username id_string export_id
                 (kw_default kw ''query'' PNone) w)"

definition call_create_zip_export ::
  "config \<Rightarrow> collaborators \<Rightarrow> kwargs \<Rightarrow> world \<Rightarrow> (exc + int option) \<times> world" where
  "call_create_zip_export cfg col kw w =
     (if \<not> accepts [''username'', ''id_string'', ''export_id''] [''query''] kw
      then (Inl TypeError, w)
      else case required_args kw of
             None \<Rightarrow> (Inl TypeError, w)
           | Some (username, id_string, export_id) \<Rightarrow>
               create_zip_export cfg col username id_string export_id
                 (kw_default kw ''query'' PNone) w)"

definition call_create_csv_zip_export ::
  "collaborators \<Rightarrow> kwargs \<Rightarrow> world \<Rightarrow> (exc + int option) \<times> world" where
  "call_create_csv_zip_export col kw w =
     (if \<not> accepts [''username'', ''id_string'', ''export_id'']
              [''query'', ''group_delimiter'', ''split_select_multiples'',
               ''binary_select_multiples''] kw
      then (Inl TypeError, w)
      else case required_args kw of
             None \<Rightarrow> (Inl TypeError, w)
           | Some (username, id_string, export_id) \<Rightarrow>
               create_csv_zip_export col username id_string export_id
                 (kw_default kw ''query'' PNone)
                 (kw_default kw ''group_delimiter'' (PStr ''/''))
                 (kw_default kw ''split_select_multiples'' (PBool True))
                 (kw_default kw ''binary_select_multiples'' (PBool False)) w)"

definition call_create_sav_zip_export ::
  "collaborators \<Rightarrow> kwargs \<Rightarrow> world \<Rightarrow> (exc + int option) \<times> world" where
  "call_create_sav_zip_export col kw w =
     (if \<not> accepts [''username'', ''id_string'', ''export_id'']
              [''query'', ''group_delimiter'', ''split_select_multiples'',
               ''binary_select_multiples''] kw
      then (Inl TypeError, w)
      else case required_args kw of
             None \<Rightarrow> (Inl TypeError, w)
           | Some (username, id_string, export_id) \<Rightarrow>
               create_sav_zip_export col username id_string export_id
                 (kw_default kw ''query'' PNone)
                 (kw_default kw ''group_delimiter'' (PStr ''/''))
                 (kw_default kw ''split_select_multiples'' (PBool True))
                 (kw_default kw ''binary_select_multiples'' (PBool False)) w)"

definition call_create_external_export ::
  "collaborators \<Rightarrow> kwargs \<Rightarrow> world \<Rightarrow> (exc + int option) \<times> world" where
  "call_create_external_export col kw w =
     (if \<not> accepts [''username'', ''id_string'', ''export_id'']
              [''query'', ''token'', ''meta''] kw
      then (Inl TypeError, w)
      else case required_args kw of
             None \<Rightarrow> (Inl TypeError, w)
           | Some (username, id_string, export_id) \<Rightarrow>
               create_external_export col username id_string export_id
                 (kw_default kw ''query'' PNone)
                 (kw_default kw ''token'' PNone)
                 (kw_default kw ''meta'' PNone) w)"

subsection \<open>The Export Dispatcher\<close>

text \<open>
  \<^verbatim>\<open>if options and k in options: arguments[k] = options[k]\<close>; \<open>options\<close> is \<^verbatim>\<open>None\<close> or a
  dictionary, and an empty dictionary is false.
\<close>

definition merge_option :: "dict option \<Rightarrow> string \<Rightarrow> kwargs \<Rightarrow> kwargs" where
  "merge_option options k arguments =
     (case options of
        None \<Rightarrow> arguments
      | Some m \<Rightarrow>
          (if m \<noteq> [] \<and> k \<in> set (map fst m) then
             (case map_of m k of
                None \<Rightarrow> arguments
              | Some v \<Rightarrow> AList.update k v arguments)
           else arguments))"

text \<open>
  \<^verbatim>\<open>if result:\<close> An \<^verbatim>\<open>AsyncResult\<close> defines neither \<^verbatim>\<open>__nonzero__\<close> nor \<^verbatim>\<open>__len__\<close>,
  so every handle is true.
\<close>

definition result_truthy :: "async_result \<Rightarrow> bool" where
  "result_truthy result = True"

text \<open>
  \<^verbatim>\<open>create_async_export(xform, export_type, query, force_xlsx, options=None)\<close>, lines 17
  to 86. It returns \<open>Inr (Some (export, result))\<close> for the pair, \<open>Inr None\<close> for
  \<^verbatim>\<open>return None\<close> and \<open>Inl e\<close> for an exception.
\<close>

definition create_async_export ::
  "config \<Rightarrow> collaborators \<Rightarrow> xform \<Rightarrow> export_type \<Rightarrow> pyval \<Rightarrow> pyval \<Rightarrow> dict option
   \<Rightarrow> world \<Rightarrow> (exc + (export \<times> async_result) option) \<times> world" where
  "create_async_export cfg col xf t query force_xlsx options w =
     (let username = xform_username xf;
          id_string = xform_id_string xf;
          (export, w1) = objects_create xf t w;
          arguments = [(''username'', PStr username),
                       (''id_string'', PStr id_string),
                       (''export_id'', PInt (export_pk export)),
                       (''query'', query)];
          submitted =
            (if t \<in> set [XLS_EXPORT, GDOC_EXPORT, CSV_EXPORT, CSV_ZIP_EXPORT, SAV_ZIP_EXPORT]
             then
               (let arguments = merge_option options ''group_delimiter'' arguments;
                    arguments = merge_option options ''split_select_multiples'' arguments;
                    arguments = merge_option options ''binary_select_multiples'' arguments
                in if t \<in> set [XLS_EXPORT, GDOC_EXPORT] then
                     apply_async cfg XlsTask (call_create_xls_export col) arguments 10 w1
                   else if t = CSV_EXPORT then
                     apply_async cfg CsvTask (call_create_csv_export col) arguments 10 w1
                   else if t = CSV_ZIP_EXPORT then
                     apply_async cfg CsvZipTask (call_create_csv_zip_export col) arguments 10 w1
                   else if t = SAV_ZIP_EXPORT then
                     apply_async cfg SavZipTask (call_create_sav_zip_export col) arguments 10 w1
                   else (Inl ExportTypeError, w1))
             else if t = ZIP_EXPORT then
               apply_async cfg ZipTask (call_create_zip_export cfg col) arguments 10 w1
             else if t = KML_EXPORT then
               apply_async cfg KmlTask (call_create_kml_export col) arguments 10 w1
             else if t = EXTERNAL_EXPORT then
               (let arguments = merge_option options ''token'' arguments;
                    arguments = merge_option options ''meta'' arguments
                in apply_async cfg ExternalTask (call_create_external_export col) arguments 10 w1)
             else (Inl ExportTypeError, w1))
      in case submitted of
           (Inl x, w2) \<Rightarrow> (Inl x, w2)
         | (Inr result, w2) \<Rightarrow>
             (if result_truthy result then
                (case (if CELERY_ALWAYS_EAGER cfg then objects_get (export_pk export) w2
                       else (Inr export, w2)) of
                   (Inl x, w3) \<Rightarrow> (Inl x, w3)
                 | (Inr export, w3) \<Rightarrow>
                     (let export = export\<lparr>task_id := Some (result_task_id result)\<rparr>;
                          w4 = save export w3
                      in (Inr (Some (export, result)), w4)))
              else (Inr None, w2)))"

subsection \<open>The Sync-Status Reporter\<close>











definition call_mongo_sync_status :: "collaborators \<Rightarrow> bool \<Rightarrow> world \<Rightarrow> (exc + string) \<times> world" where
  "call_mongo_sync_status col remongo w = (mongo_sync_status col remongo, emit (EvSyncStatus remongo) w)"


subsection \<open>Reading the trace\<close>

fun is_create :: "event \<Rightarrow> bool" where
  "is_create (EvCreate e) = True"
| "is_create ev = False"

fun is_save :: "event \<Rightarrow> bool" where
  "is_save (EvSave e) = True"
| "is_save ev = False"

fun is_submit :: "event \<Rightarrow> bool" where
  "is_submit (EvSubmit j kw n) = True"
| "is_submit ev = False"

text \<open>The submission of one of the seven export jobs, as opposed to the cleanup job.\<close>

fun is_export_submit :: "event \<Rightarrow> bool" where
  "is_export_submit (EvSubmit j kw n) = (j \<noteq> DeleteTask)"
| "is_export_submit ev = False"

text \<open>The file extension a generator is called with; the external generator takes none.\<close>

fun gen_ext :: "gen_call \<Rightarrow> string option" where
  "gen_ext (generate_export t ext u f i q gd ssm bsm) = Some ext"
| "gen_ext (generate_attachments_zip_export t ext u f i q) = Some ext"
| "gen_ext (generate_kml_export t ext u f i q) = Some ext"
| "gen_ext (generate_external_export t u f i tok q meta) = None"

fun gen_export_id :: "gen_call \<Rightarrow> int" where
  "gen_export_id (generate_export t ext u f i q gd ssm bsm) = i"
| "gen_export_id (generate_attachments_zip_export t ext u f i q) = i"
| "gen_export_id (generate_kml_export t ext u f i q) = i"
| "gen_export_id (generate_external_export t u f i tok q meta) = i"

subsection \<open>The dispatcher in parts\<close>

text \<open>
  The eight supported export types, the task each is routed to, and the option keys the
  dispatcher looks at for each (lines 33 to 76).
\<close>

fun supported :: "export_type \<Rightarrow> bool" where
  "supported (UNSUPPORTED s) = False"
| "supported t = True"

fun job_for :: "export_type \<Rightarrow> job" where
  "job_for XLS_EXPORT = XlsTask"
| "job_for GDOC_EXPORT = XlsTask"
| "job_for CSV_EXPORT = CsvTask"
| "job_for CSV_ZIP_EXPORT = CsvZipTask"
| "job_for SAV_ZIP_EXPORT = SavZipTask"
| "job_for ZIP_EXPORT = ZipTask"
| "job_for KML_EXPORT = KmlTask"
| "job_for EXTERNAL_EXPORT = ExternalTask"
| "job_for (UNSUPPORTED s) = DeleteTask"

fun relevant_keys :: "export_type \<Rightarrow> string list" where
  "relevant_keys XLS_EXPORT = [''group_delimiter'', ''split_select_multiples'', ''binary_select_multiples'']"
| "relevant_keys GDOC_EXPORT = [''group_delimiter'', ''split_select_multiples'', ''binary_select_multiples'']"
| "relevant_keys CSV_EXPORT = [''group_delimiter'', ''split_select_multiples'', ''binary_select_multiples'']"
| "relevant_keys CSV_ZIP_EXPORT = [''group_delimiter'', ''split_select_multiples'', ''binary_select_multiples'']"
| "relevant_keys SAV_ZIP_EXPORT = [''group_delimiter'', ''split_select_multiples'', ''binary_select_multiples'']"
| "relevant_keys EXTERNAL_EXPORT = [''token'', ''meta'']"
| "relevant_keys t = []"

text \<open>The options mapping as a map; \<^verbatim>\<open>None\<close> holds no key.\<close>

definition options_map :: "dict option \<Rightarrow> string \<rightharpoonup> pyval" where
  "options_map options = (case options of None \<Rightarrow> Map.empty | Some m \<Rightarrow> map_of m)"

text \<open>
  The argument set of a supported export type: the four entries of lines 27 to 32, then
  the options of the type that the caller gave, in the order of the source.
\<close>

definition dispatch_arguments ::
  "xform \<Rightarrow> export_type \<Rightarrow> int \<Rightarrow> pyval \<Rightarrow> dict option \<Rightarrow> kwargs" where
  "dispatch_arguments xf t i query options =
     [(''username'', PStr (xform_username xf)),
      (''id_string'', PStr (xform_id_string xf)),
      (''export_id'', PInt i),
      (''query'', query)] @
     concat (map (\<lambda>k. case options_map options k of None \<Rightarrow> [] | Some v \<Rightarrow> [(k, v)])
               (relevant_keys t))"

text \<open>
  Lines 77 to 86 on their own, as a function of the record created and of what the
  submission returned.
\<close>

definition stamp_task_id ::
  "config \<Rightarrow> export \<Rightarrow> (exc + async_result) \<times> world
   \<Rightarrow> (exc + (export \<times> async_result) option) \<times> world" where
  "stamp_task_id cfg export submitted =
     (case submitted of
        (Inl x, w2) \<Rightarrow> (Inl x, w2)
      | (Inr result, w2) \<Rightarrow>
          (if result_truthy result then
             (case (if CELERY_ALWAYS_EAGER cfg then objects_get (export_pk export) w2
                    else (Inr export, w2)) of
                (Inl x, w3) \<Rightarrow> (Inl x, w3)
              | (Inr export, w3) \<Rightarrow>
                  (let export = export\<lparr>task_id := Some (result_task_id result)\<rparr>;
                       w4 = save export w3
                   in (Inr (Some (export, result)), w4)))
           else (Inr None, w2)))"

text \<open>
  What a job that runs may add to the trace: it creates no record, and the only job it
  submits is the cleanup.
\<close>

fun job_event :: "event \<Rightarrow> bool" where
  "job_event (EvCreate e) = False"
| "job_event (EvSubmit j kw n) = (j = DeleteTask)"
| "job_event ev = True"

definition job_trace :: "(kwargs \<Rightarrow> world \<Rightarrow> (exc + 'r) \<times> world) \<Rightarrow> bool" where
  "job_trace body =
     (\<forall>kw w. \<exists>evs. trace (snd (body kw w)) = trace w @ evs \<and> list_all job_event evs)"

text \<open>The generator calls of a trace, in order.\<close>

fun generator_calls :: "event list \<Rightarrow> gen_call list" where
  "generator_calls [] = []"
| "generator_calls (EvGenerate c # evs) = c # generator_calls evs"
| "generator_calls (ev # evs) = generator_calls evs"

subsection \<open>Worlds and records of the examples\<close>

definition world0 :: world where
  "world0 = \<lparr>db = Map.empty, next_pk = 1, next_task = 0, trace = []\<rparr>"

definition bob_form :: xform where
  "bob_form = \<lparr>xform_username = ''bob'', xform_id_string = ''tutorial''\<rparr>"

definition record1 :: export where
  "record1 = \<lparr>export_pk = 1, export_xform = bob_form, export_type = ZIP_EXPORT,
              internal_status = PENDING, task_id = None, filename = None\<rparr>"

definition world1 :: world where
  "world1 = \<lparr>db = [1 \<mapsto> record1], next_pk = 2, next_task = 0, trace = []\<rparr>"

definition alice_form :: xform where
  "alice_form = \<lparr>xform_username = ''alice'', xform_id_string = ''survey''\<rparr>"

definition record42 :: export where
  "record42 = \<lparr>export_pk = 42, export_xform = alice_form, export_type = CSV_EXPORT,
               internal_status = PENDING, task_id = None, filename = None\<rparr>"

definition world42 :: world where
  "world42 = \<lparr>db = [42 \<mapsto> record42], next_pk = 43, next_task = 0, trace = []\<rparr>"

text \<open>Generators that raise \<open>e\<close> whatever they are called with.\<close>

definition raising :: "exc \<Rightarrow> collaborators" where
  "raising e = \<lparr>generate = (\<lambda>c d. (Inl e, d)), mongo_sync_status = (\<lambda>r. Inl e)\<rparr>"

text \<open>
  Generators that attach an output to the record they are called for and return it, and
  find no records where the record is missing.
\<close>

definition succeeding :: collaborators where
  "succeeding =
     \<lparr>generate = (\<lambda>c d. case d (gen_export_id c) of
                           None \<Rightarrow> (Inl NoRecordsFoundError, d)
                         | Some r \<Rightarrow>
                             (let g = r\<lparr>export_pk := gen_export_id c, filename := Some ''out''\<rparr>
                              in (Inr g, d(gen_export_id c \<mapsto> g)))),
      mongo_sync_status = (\<lambda>r. if r then Inr ''Total # of records to remongo: 0''
                                else Inr ''Total # of records to remongo: 5'')\<rparr>"




definition worker_settings :: config where
  "worker_settings = \<lparr>CELERY_ALWAYS_EAGER = False, CELERY_EAGER_PROPAGATES_EXCEPTIONS = False,
                       TESTING_MODE = False, ZIP_EXPORT_COUNTDOWN = 3600\<rparr>"

definition eager_settings :: config where
  "eager_settings = \<lparr>CELERY_ALWAYS_EAGER = True, CELERY_EAGER_PROPAGATES_EXCEPTIONS = False,
                      TESTING_MODE = False, ZIP_EXPORT_COUNTDOWN = 3600\<rparr>"

definition test_settings :: config where
  "test_settings = \<lparr>CELERY_ALWAYS_EAGER = True, CELERY_EAGER_PROPAGATES_EXCEPTIONS = True,
                     TESTING_MODE = True, ZIP_EXPORT_COUNTDOWN = 3600\<rparr>"

section \<open>Properties\<close>

subsection \<open>The record store\<close>

lemma db_emit [simp]: "db (emit ev w) = db w"
  by (simp add: emit_def)

lemma trace_emit [simp]: "trace (emit ev w) = trace w @ [ev]"
  by (simp add: emit_def)

lemma next_pk_emit [simp]: "next_pk (emit ev w) = next_pk w"
  by (simp add: emit_def)

lemma next_task_emit [simp]: "next_task (emit ev w) = next_task w"
  by (simp add: emit_def)

lemma new_events_append [simp]: "trace w' = trace w @ evs \<Longrightarrow> new_events w w' = evs"
  by (simp add: new_events_def)

lemma objects_get_absent:
  "db w i = None \<Longrightarrow> objects_get i w = (Inl DoesNotExist, emit (EvGet i None) w)"
  by (simp add: objects_get_def)

lemma objects_get_present:
  "db w i = Some r \<Longrightarrow>
   objects_get i w = (Inr (r\<lparr>export_pk := i\<rparr>), emit (EvGet i (Some (r\<lparr>export_pk := i\<rparr>))) w)"
  by (simp add: objects_get_def Let_def)

subsection \<open>The decimal numeral of a record id\<close>

lemma digit_table:
  "list_all (\<lambda>n. digit_value (''0123456789'' ! n) = n \<and> ''0123456789'' ! n \<noteq> CHR ''-'')
     [0 ..< 10]"
  by (simp add: upt_rec digit_value_def)

lemma digit_value_nth: "n < 10 \<Longrightarrow> digit_value (''0123456789'' ! n) = n"
  using digit_table by (simp add: list_all_iff)

lemma digit_not_minus: "n < 10 \<Longrightarrow> ''0123456789'' ! n \<noteq> CHR ''-''"
  using digit_table by (simp add: list_all_iff)

lemma nat_of_decimal_snoc:
  "nat_of_decimal (s @ [c]) = 10 * nat_of_decimal s + digit_value c"
  by (simp add: nat_of_decimal_def)

lemma nat_of_decimal_str_nat: "nat_of_decimal (str_nat n) = n"
proof (induction n rule: str_nat.induct)
  case (1 n)
  show ?case
  proof (cases "n < 10")
    case True
    then show ?thesis
      by (subst str_nat.simps) (simp add: nat_of_decimal_def digit_value_nth)
  next
    case False
    then have "nat_of_decimal (str_nat n) =
               10 * nat_of_decimal (str_nat (n div 10)) + digit_value (''0123456789'' ! (n mod 10))"
      by (subst str_nat.simps) (simp add: nat_of_decimal_snoc)
    also have "\<dots> = 10 * (n div 10) + n mod 10"
      using 1 False by (simp add: digit_value_nth)
    finally show ?thesis by simp
  qed
qed

lemma str_nat_head: "\<exists>c r. str_nat n = c # r \<and> c \<noteq> CHR ''-''"
proof (induction n rule: str_nat.induct)
  case (1 n)
  show ?case
  proof (cases "n < 10")
    case True
    then show ?thesis
      by (subst str_nat.simps) (simp add: digit_not_minus)
  next
    case False
    then obtain c r where "str_nat (n div 10) = c # r" "c \<noteq> CHR ''-''"
      using 1 by blast
    then show ?thesis using False
      by (subst str_nat.simps) simp
  qed
qed

lemma int_of_decimal_str_int: "int_of_decimal (str_int i) = i"
proof (cases "i < 0")
  case True
  then show ?thesis
    by (simp add: str_int_def int_of_decimal_def nat_of_decimal_str_nat)
next
  case False
  obtain c r where cr: "str_nat (nat i) = c # r" "c \<noteq> CHR ''-''"
    using str_nat_head by blast
  have "nat_of_decimal (c # r) = nat i"
    using nat_of_decimal_str_nat [of "nat i"] cr by simp
  then show ?thesis using False cr
    by (simp add: str_int_def int_of_decimal_def)
qed

subsection \<open>What each wrapper does\<close>

lemma xls_absent:
  "db w i = None \<Longrightarrow> create_xls_export col u f i q fx gd ssm bsm w = (Inr None, emit (EvGet i None) w)"
  by (simp add: create_xls_export_def objects_get_absent)

lemma xls_raise:
  "db w i = Some r \<Longrightarrow>
   generate col (generate_export XLS_EXPORT (if \<not> truthy fx then ''xls'' else ''xlsx'') u f i q gd ssm bsm) (db w) = (Inl e, d) \<Longrightarrow>
   create_xls_export col u f i q fx gd ssm bsm w =
     (Inl e,
      w\<lparr>db := d(i \<mapsto> r\<lparr>export_pk := i, internal_status := FAILED\<rparr>),
         trace := trace w @
           [EvGet i (Some (r\<lparr>export_pk := i\<rparr>)),
            EvGenerate (generate_export XLS_EXPORT (if \<not> truthy fx then ''xls'' else ''xlsx'') u f i q gd ssm bsm),
            EvSave (r\<lparr>export_pk := i, internal_status := FAILED\<rparr>),
            EvReport (format_details ''XLS Export Exception: Export ID - '' i u f) e True]\<rparr>)"
  by (simp add: create_xls_export_def objects_get_present call_generator_def save_def
        report_exception_def emit_def Let_def)

lemma xls_success:
  "db w i = Some r \<Longrightarrow>
   generate col (generate_export XLS_EXPORT (if \<not> truthy fx then ''xls'' else ''xlsx'') u f i q gd ssm bsm) (db w) = (Inr g, d) \<Longrightarrow>
   create_xls_export col u f i q fx gd ssm bsm w =
     (Inr (Some (export_pk g)),
      w\<lparr>db := d,
        trace := trace w @
          [EvGet i (Some (r\<lparr>export_pk := i\<rparr>)),
           EvGenerate (generate_export XLS_EXPORT (if \<not> truthy fx then ''xls'' else ''xlsx'') u f i q gd ssm bsm)]\<rparr>)"
  by (simp add: create_xls_export_def objects_get_present call_generator_def emit_def)

lemma csv_absent:
  "db w i = None \<Longrightarrow> create_csv_export col u f i q gd ssm bsm w = (Inl DoesNotExist, emit (EvGet i None) w)"
  by (simp add: create_csv_export_def objects_get_absent)

lemma csv_no_records:
  "db w i = Some r \<Longrightarrow>
   generate col (generate_export CSV_EXPORT ''csv'' u f i q gd ssm bsm) (db w) = (Inl NoRecordsFoundError, d) \<Longrightarrow>
   create_csv_export col u f i q gd ssm bsm w =
     (Inr None,
      w\<lparr>db := d(i \<mapsto> r\<lparr>export_pk := i, internal_status := FAILED\<rparr>),
         trace := trace w @
           [EvGet i (Some (r\<lparr>export_pk := i\<rparr>)),
            EvGenerate (generate_export CSV_EXPORT ''csv'' u f i q gd ssm bsm),
            EvSave (r\<lparr>export_pk := i, internal_status := FAILED\<rparr>)]\<rparr>)"
  by (simp add: create_csv_export_def objects_get_present call_generator_def save_def
        emit_def Let_def)

lemma csv_raise:
  "db w i = Some r \<Longrightarrow> e \<noteq> NoRecordsFoundError \<Longrightarrow>
   generate col (generate_export CSV_EXPORT ''csv'' u f i q gd ssm bsm) (db w) = (Inl e, d) \<Longrightarrow>
   create_csv_export col u f i q gd ssm bsm w =
     (Inl e,
      w\<lparr>db := d(i \<mapsto> r\<lparr>export_pk := i, internal_status := FAILED\<rparr>),
         trace := trace w @
           [EvGet i (Some (r\<lparr>export_pk := i\<rparr>)),
            EvGenerate (generate_export CSV_EXPORT ''csv'' u f i q gd ssm bsm),
            EvSave (r\<lparr>export_pk := i, internal_status := FAILED\<rparr>),
            EvReport (format_details ''CSV Export Exception: Export ID - '' i u f) e True]\<rparr>)"
  by (simp add: create_csv_export_def objects_get_present call_generator_def save_def
        report_exception_def emit_def Let_def)

lemma csv_success:
  "db w i = Some r \<Longrightarrow>
   generate col (generate_export CSV_EXPORT ''csv'' u f i q gd ssm bsm) (db w) = (Inr g, d) \<Longrightarrow>
   create_csv_export col u f i q gd ssm bsm w =
     (Inr (Some (export_pk g)),
      w\<lparr>db := d,
        trace := trace w @
          [EvGet i (Some (r\<lparr>export_pk := i\<rparr>)),
           EvGenerate (generate_export CSV_EXPORT ''csv'' u f i q gd ssm bsm)]\<rparr>)"
  by (simp add: create_csv_export_def objects_get_present call_generator_def emit_def)

lemma kml_absent:
  "db w i = None \<Longrightarrow> create_kml_export col u f i q w = (Inl DoesNotExist, emit (EvGet i None) w)"
  by (simp add: create_kml_export_def objects_get_absent)

lemma kml_raise:
  "db w i = Some r \<Longrightarrow>
   generate col (generate_kml_export KML_EXPORT ''kml'' u f i q) (db w) = (Inl e, d) \<Longrightarrow>
   create_kml_export col u f i q w =
     (Inl e,
      w\<lparr>db := d(i \<mapsto> r\<lparr>export_pk := i, internal_status := FAILED\<rparr>),
         trace := trace w @
           [EvGet i (Some (r\<lparr>export_pk := i\<rparr>)),
            EvGenerate (generate_kml_export KML_EXPORT ''kml'' u f i q),
            EvSave (r\<lparr>export_pk := i, internal_status := FAILED\<rparr>),
            EvReport (format_details ''KML Export Exception: Export ID - '' i u f) e True]\<rparr>)"
  by (simp add: create_kml_export_def objects_get_present call_generator_def save_def
        report_exception_def emit_def Let_def)

lemma kml_success:
  "db w i = Some r \<Longrightarrow>
   generate col (generate_kml_export KML_EXPORT ''kml'' u f i q) (db w) = (Inr g, d) \<Longrightarrow>
   create_kml_export col u f i q w =
     (Inr (Some (export_pk g)),
      w\<lparr>db := d,
        trace := trace w @
          [EvGet i (Some (r\<lparr>export_pk := i\<rparr>)),
           EvGenerate (generate_kml_export KML_EXPORT ''kml'' u f i q)]\<rparr>)"
  by (simp add: create_kml_export_def objects_get_present call_generator_def emit_def)

lemma zip_absent:
  "db w i = None \<Longrightarrow> create_zip_export cfg col u f i q w = (Inl DoesNotExist, emit (EvGet i None) w)"
  by (simp add: create_zip_export_def objects_get_absent)

lemma zip_raise:
  "db w i = Some r \<Longrightarrow>
   generate col (generate_attachments_zip_export ZIP_EXPORT ''zip'' u f i q) (db w) = (Inl e, d) \<Longrightarrow>
   create_zip_export cfg col u f i q w =
     (Inl e,
      w\<lparr>db := d(i \<mapsto> r\<lparr>export_pk := i, internal_status := FAILED\<rparr>),
         trace := trace w @
           [EvGet i (Some (r\<lparr>export_pk := i\<rparr>)),
            EvGenerate (generate_attachments_zip_export ZIP_EXPORT ''zip'' u f i q),
            EvSave (r\<lparr>export_pk := i, internal_status := FAILED\<rparr>),
            EvReport (format_details ''Zip Export Exception: Export ID - '' i u f) e False]\<rparr>)"
  by (simp add: create_zip_export_def objects_get_present call_generator_def save_def
        report_exception_def emit_def Let_def)

lemma csv_zip_absent:
  "db w i = None \<Longrightarrow> create_csv_zip_export col u f i q gd ssm bsm w = (Inl DoesNotExist, emit (EvGet i None) w)"
  by (simp add: create_csv_zip_export_def objects_get_absent)

lemma csv_zip_raise:
  "db w i = Some r \<Longrightarrow>
   generate col (generate_export CSV_ZIP_EXPORT ''zip'' u f i q gd ssm bsm) (db w) = (Inl e, d) \<Longrightarrow>
   create_csv_zip_export col u f i q gd ssm bsm w =
     (Inl e,
      w\<lparr>db := d(i \<mapsto> r\<lparr>export_pk := i, internal_status := FAILED\<rparr>),
         trace := trace w @
           [EvGet i (Some (r\<lparr>export_pk := i\<rparr>)),
            EvGenerate (generate_export CSV_ZIP_EXPORT ''zip'' u f i q gd ssm bsm),
            EvSave (r\<lparr>export_pk := i, internal_status := FAILED\<rparr>),
            EvReport (format_details ''CSV ZIP Export Exception: Export ID - '' i u f) e True]\<rparr>)"
  by (simp add: create_csv_zip_export_def objects_get_present call_generator_def save_def
        report_exception_def emit_def Let_def)

lemma csv_zip_success:
  "db w i = Some r \<Longrightarrow>
   generate col (generate_export CSV_ZIP_EXPORT ''zip'' u f i q gd ssm bsm) (db w) = (Inr g, d) \<Longrightarrow>
   create_csv_zip_export col u f i q gd ssm bsm w =
     (Inr (Some (export_pk g)),
      w\<lparr>db := d,
        trace := trace w @
          [EvGet i (Some (r\<lparr>export_pk := i\<rparr>)),
           EvGenerate (generate_export CSV_ZIP_EXPORT ''zip'' u f i q gd ssm bsm)]\<rparr>)"
  by (simp add: create_csv_zip_export_def objects_get_present call_generator_def emit_def)

lemma sav_zip_absent:
  "db w i = None \<Longrightarrow> create_sav_zip_export col u f i q gd ssm bsm w = (Inl DoesNotExist, emit (EvGet i None) w)"
  by (simp add: create_sav_zip_export_def objects_get_absent)

lemma sav_zip_raise:
  "db w i = Some r \<Longrightarrow>
   generate col (generate_export SAV_ZIP_EXPORT ''zip'' u f i q gd ssm bsm) (db w) = (Inl e, d) \<Longrightarrow>
   create_sav_zip_export col u f i q gd ssm bsm w =
     (Inl e,
      w\<lparr>db := d(i \<mapsto> r\<lparr>export_pk := i, internal_status := FAILED\<rparr>),
         trace := trace w @
           [EvGet i (Some (r\<lparr>export_pk := i\<rparr>)),
            EvGenerate (generate_export SAV_ZIP_EXPORT ''zip'' u f i q gd ssm bsm),
            EvSave (r\<lparr>export_pk := i, internal_status := FAILED\<rparr>),
            EvReport (format_details ''SAV ZIP Export Exception: Export ID - '' i u f) e True]\<rparr>)"
  by (simp add: create_sav_zip_export_def objects_get_present call_generator_def save_def
        report_exception_def emit_def Let_def)

lemma sav_zip_success:
  "db w i = Some r \<Longrightarrow>
   generate col (generate_export SAV_ZIP_EXPORT ''zip'' u f i q gd ssm bsm) (db w) = (Inr g, d) \<Longrightarrow>
   create_sav_zip_export col u f i q gd ssm bsm w =
     (Inr (Some (export_pk g)),
      w\<lparr>db := d,
        trace := trace w @
          [EvGet i (Some (r\<lparr>export_pk := i\<rparr>)),
           EvGenerate (generate_export SAV_ZIP_EXPORT ''zip'' u f i q gd ssm bsm)]\<rparr>)"
  by (simp add: create_sav_zip_export_def objects_get_present call_generator_def emit_def)

lemma external_absent:
  "db w i = None \<Longrightarrow> create_external_export col u f i q tok meta w = (Inl DoesNotExist, emit (EvGet i None) w)"
  by (simp add: create_external_export_def objects_get_absent)

lemma external_raise:
  "db w i = Some r \<Longrightarrow>
   generate col (generate_external_export EXTERNAL_EXPORT u f i tok q meta) (db w) = (Inl e, d) \<Longrightarrow>
   create_external_export col u f i q tok meta w =
     (Inl e,
      w\<lparr>db := d(i \<mapsto> r\<lparr>export_pk := i, internal_status := FAILED\<rparr>),
         trace := trace w @
           [EvGet i (Some (r\<lparr>export_pk := i\<rparr>)),
            EvGenerate (generate_external_export EXTERNAL_EXPORT u f i tok q meta),
            EvSave (r\<lparr>export_pk := i, internal_status := FAILED\<rparr>),
            EvReport (format_details ''External Export Exception: Export ID - '' i u f) e True]\<rparr>)"
  by (simp add: create_external_export_def objects_get_present call_generator_def save_def
        report_exception_def emit_def Let_def)

lemma external_success:
  "db w i = Some r \<Longrightarrow>
   generate col (generate_external_export EXTERNAL_EXPORT u f i tok q meta) (db w) = (Inr g, d) \<Longrightarrow>
   create_external_export col u f i q tok meta w =
     (Inr (Some (export_pk g)),
      w\<lparr>db := d,
        trace := trace w @
          [EvGet i (Some (r\<lparr>export_pk := i\<rparr>)),
           EvGenerate (generate_external_export EXTERNAL_EXPORT u f i tok q meta)]\<rparr>)"
  by (simp add: create_external_export_def objects_get_present call_generator_def emit_def)

lemma zip_success_testing:
  "TESTING_MODE cfg \<Longrightarrow> db w i = Some r \<Longrightarrow>
   generate col (generate_attachments_zip_export ZIP_EXPORT ''zip'' u f i q) (db w) = (Inr g, d) \<Longrightarrow>
   create_zip_export cfg col u f i q w =
     (Inr (Some (export_pk g)),
      w\<lparr>db := d,
        trace := trace w @
          [EvGet i (Some (r\<lparr>export_pk := i\<rparr>)),
           EvGenerate (generate_attachments_zip_export ZIP_EXPORT ''zip'' u f i q)]\<rparr>)"
  by (simp add: create_zip_export_def objects_get_present call_generator_def emit_def)

lemma zip_success_queued:
  "\<not> TESTING_MODE cfg \<Longrightarrow> \<not> CELERY_ALWAYS_EAGER cfg \<Longrightarrow> db w i = Some r \<Longrightarrow>
   generate col (generate_attachments_zip_export ZIP_EXPORT ''zip'' u f i q) (db w) = (Inr g, d) \<Longrightarrow>
   create_zip_export cfg col u f i q w =
     (Inr (Some (export_pk g)),
      w\<lparr>db := d, next_task := next_task w + 1,
        trace := trace w @
          [EvGet i (Some (r\<lparr>export_pk := i\<rparr>)),
           EvGenerate (generate_attachments_zip_export ZIP_EXPORT ''zip'' u f i q),
           EvSubmit DeleteTask [(''export_id'', PInt (export_pk g))] (ZIP_EXPORT_COUNTDOWN cfg)]\<rparr>)"
  by (simp add: create_zip_export_def objects_get_present call_generator_def emit_def
        apply_async_def Let_def)

lemma call_delete_export_eq:
  "call_delete_export [(''export_id'', PInt k)] w = delete_export k w"
  by (simp add: call_delete_export_def accepts_def)

lemma delete_export_eq:
  "delete_export k w =
     (case db w k of
        None \<Rightarrow> (Inr False, w\<lparr>trace := trace w @ [EvGet k None]\<rparr>)
      | Some x \<Rightarrow>
          (Inr True,
           w\<lparr>db := (db w)(k := None),
             trace := trace w @ [EvGet k (Some (x\<lparr>export_pk := k\<rparr>)), EvDelete (x\<lparr>export_pk := k\<rparr>)]\<rparr>))"
  by (simp add: delete_export_def objects_get_def delete_def emit_def Let_def split: option.splits)

lemma zip_success_eager:
  "\<not> TESTING_MODE cfg \<Longrightarrow> CELERY_ALWAYS_EAGER cfg \<Longrightarrow> db w i = Some r \<Longrightarrow>
   generate col (generate_attachments_zip_export ZIP_EXPORT ''zip'' u f i q) (db w) = (Inr g, d) \<Longrightarrow>
   create_zip_export cfg col u f i q w =
     (Inr (Some (export_pk g)),
      w\<lparr>db := d(export_pk g := None), next_task := next_task w + 1,
        trace := trace w @
          [EvGet i (Some (r\<lparr>export_pk := i\<rparr>)),
           EvGenerate (generate_attachments_zip_export ZIP_EXPORT ''zip'' u f i q),
           EvSubmit DeleteTask [(''export_id'', PInt (export_pk g))] (ZIP_EXPORT_COUNTDOWN cfg)] @
          (case d (export_pk g) of
             None \<Rightarrow> [EvGet (export_pk g) None]
           | Some x \<Rightarrow> [EvGet (export_pk g) (Some (x\<lparr>export_pk := export_pk g\<rparr>)),
                        EvDelete (x\<lparr>export_pk := export_pk g\<rparr>)])\<rparr>)"
  by (simp add: create_zip_export_def objects_get_present call_generator_def emit_def
        apply_async_def Let_def call_delete_export_eq delete_export_eq fun_upd_idem
        split: option.splits)

subsection \<open>What a running job adds to the trace\<close>

lemma merge_option_eq:
  "merge_option options k a =
     (case options_map options k of None \<Rightarrow> a | Some v \<Rightarrow> AList.update k v a)"
  by (cases options)
     (auto simp: merge_option_def options_map_def map_of_eq_None_iff [symmetric]
           simp del: map_of_eq_None_iff split: option.splits)

lemma job_trace_delete: "job_trace call_delete_export"
  unfolding job_trace_def
  by (auto simp: call_delete_export_def delete_export_eq split: option.splits pyval.splits)

lemma xls_trace:
  "\<exists>evs. trace (snd (create_xls_export col u f i q fx gd ssm bsm w)) = trace w @ evs \<and> list_all job_event evs"
  by (auto simp: create_xls_export_def objects_get_def call_generator_def save_def
        report_exception_def emit_def Let_def
      split: option.splits prod.splits sum.splits)

lemma job_trace_xls: "job_trace (call_create_xls_export col)"
  unfolding job_trace_def call_create_xls_export_def
  by (auto simp: xls_trace split: option.splits)

lemma csv_trace:
  "\<exists>evs. trace (snd (create_csv_export col u f i q gd ssm bsm w)) = trace w @ evs \<and> list_all job_event evs"
  by (auto simp: create_csv_export_def objects_get_def call_generator_def save_def
        report_exception_def emit_def Let_def
      split: option.splits prod.splits sum.splits)

lemma job_trace_csv: "job_trace (call_create_csv_export col)"
  unfolding job_trace_def call_create_csv_export_def
  by (auto simp: csv_trace split: option.splits)

lemma kml_trace:
  "\<exists>evs. trace (snd (create_kml_export col u f i q w)) = trace w @ evs \<and> list_all job_event evs"
  by (auto simp: create_kml_export_def objects_get_def call_generator_def save_def
        report_exception_def emit_def Let_def
      split: option.splits prod.splits sum.splits)

lemma job_trace_kml: "job_trace (call_create_kml_export col)"
  unfolding job_trace_def call_create_kml_export_def
  by (auto simp: kml_trace split: option.splits)

lemma zip_trace:
  "\<exists>evs. trace (snd (create_zip_export cfg col u f i q w)) = trace w @ evs \<and> list_all job_event evs"
  by (auto simp: create_zip_export_def objects_get_def call_generator_def save_def
        report_exception_def emit_def Let_def apply_async_def call_delete_export_eq delete_export_eq
      split: option.splits prod.splits sum.splits)

lemma job_trace_zip: "job_trace (call_create_zip_export cfg col)"
  unfolding job_trace_def call_create_zip_export_def
  by (auto simp: zip_trace split: option.splits)

lemma csv_zip_trace:
  "\<exists>evs. trace (snd (create_csv_zip_export col u f i q gd ssm bsm w)) = trace w @ evs \<and> list_all job_event evs"
  by (auto simp: create_csv_zip_export_def objects_get_def call_generator_def save_def
        report_exception_def emit_def Let_def
      split: option.splits prod.splits sum.splits)

lemma job_trace_csv_zip: "job_trace (call_create_csv_zip_export col)"
  unfolding job_trace_def call_create_csv_zip_export_def
  by (auto simp: csv_zip_trace split: option.splits)

lemma sav_zip_trace:
  "\<exists>evs. trace (snd (create_sav_zip_export col u f i q gd ssm bsm w)) = trace w @ evs \<and> list_all job_event evs"
  by (auto simp: create_sav_zip_export_def objects_get_def call_generator_def save_def
        report_exception_def emit_def Let_def
      split: option.splits prod.splits sum.splits)

lemma job_trace_sav_zip: "job_trace (call_create_sav_zip_export col)"
  unfolding job_trace_def call_create_sav_zip_export_def
  by (auto simp: sav_zip_trace split: option.splits)

lemma external_trace:
  "\<exists>evs. trace (snd (create_external_export col u f i q tok meta w)) = trace w @ evs \<and> list_all job_event evs"
  by (auto simp: create_external_export_def objects_get_def call_generator_def save_def
        report_exception_def emit_def Let_def
      split: option.splits prod.splits sum.splits)

lemma job_trace_external: "job_trace (call_create_external_export col)"
  unfolding job_trace_def call_create_external_export_def
  by (auto simp: external_trace split: option.splits)


lemma objects_create_eq:
  "objects_create xf t w =
     (\<lparr>export_pk = next_pk w, export_xform = xf, export_type = t,
       internal_status = PENDING, task_id = None, filename = None\<rparr>,
      w\<lparr>db := (db w)(next_pk w \<mapsto>
              \<lparr>export_pk = next_pk w, export_xform = xf, export_type = t,
               internal_status = PENDING, task_id = None, filename = None\<rparr>),
        next_pk := next_pk w + 1,
        trace := trace w @
          [EvCreate \<lparr>export_pk = next_pk w, export_xform = xf, export_type = t,
                     internal_status = PENDING, task_id = None, filename = None\<rparr>]\<rparr>)"
  by (simp add: objects_create_def emit_def Let_def)

lemma create_async_export_xls:
  "t = XLS_EXPORT \<or> t = GDOC_EXPORT \<Longrightarrow>
   create_async_export cfg col xf t q fx options w =
     stamp_task_id cfg (fst (objects_create xf t w))
       (apply_async cfg XlsTask (call_create_xls_export col)
          (dispatch_arguments xf t (next_pk w) q options) 10 (snd (objects_create xf t w)))"
  by (auto simp: create_async_export_def stamp_task_id_def dispatch_arguments_def
        merge_option_eq objects_create_eq Let_def split: option.splits)


lemma create_async_export_csv:
  "t = CSV_EXPORT \<Longrightarrow>
   create_async_export cfg col xf t q fx options w =
     stamp_task_id cfg (fst (objects_create xf t w))
       (apply_async cfg CsvTask (call_create_csv_export col)
          (dispatch_arguments xf t (next_pk w) q options) 10 (snd (objects_create xf t w)))"
  by (auto simp: create_async_export_def stamp_task_id_def dispatch_arguments_def
        merge_option_eq objects_create_eq Let_def split: option.splits)

lemma create_async_export_csv_zip:
  "t = CSV_ZIP_EXPORT \<Longrightarrow>
   create_async_export cfg col xf t q fx options w =
     stamp_task_id cfg (fst (objects_create xf t w))
       (apply_async cfg CsvZipTask (call_create_csv_zip_export col)
          (dispatch_arguments xf t (next_pk w) q options) 10 (snd (objects_create xf t w)))"
  by (auto simp: create_async_export_def stamp_task_id_def dispatch_arguments_def
        merge_option_eq objects_create_eq Let_def split: option.splits)

lemma create_async_export_sav_zip:
  "t = SAV_ZIP_EXPORT \<Longrightarrow>
   create_async_export cfg col xf t q fx options w =
     stamp_task_id cfg (fst (objects_create xf t w))
       (apply_async cfg SavZipTask (call_create_sav_zip_export col)
          (dispatch_arguments xf t (next_pk w) q options) 10 (snd (objects_create xf t w)))"
  by (auto simp: create_async_export_def stamp_task_id_def dispatch_arguments_def
        merge_option_eq objects_create_eq Let_def split: option.splits)

lemma create_async_export_zip:
  "t = ZIP_EXPORT \<Longrightarrow>
   create_async_export cfg col xf t q fx options w =
     stamp_task_id cfg (fst (objects_create xf t w))
       (apply_async cfg ZipTask (call_create_zip_export cfg col)
          (dispatch_arguments xf t (next_pk w) q options) 10 (snd (objects_create xf t w)))"
  by (auto simp: create_async_export_def stamp_task_id_def dispatch_arguments_def
        merge_option_eq objects_create_eq Let_def split: option.splits)

lemma create_async_export_kml:
  "t = KML_EXPORT \<Longrightarrow>
   create_async_export cfg col xf t q fx options w =
     stamp_task_id cfg (fst (objects_create xf t w))
       (apply_async cfg KmlTask (call_create_kml_export col)
          (dispatch_arguments xf t (next_pk w) q options) 10 (snd (objects_create xf t w)))"
  by (auto simp: create_async_export_def stamp_task_id_def dispatch_arguments_def
        merge_option_eq objects_create_eq Let_def split: option.splits)

lemma create_async_export_external:
  "t = EXTERNAL_EXPORT \<Longrightarrow>
   create_async_export cfg col xf t q fx options w =
     stamp_task_id cfg (fst (objects_create xf t w))
       (apply_async cfg ExternalTask (call_create_external_export col)
          (dispatch_arguments xf t (next_pk w) q options) 10 (snd (objects_create xf t w)))"
  by (auto simp: create_async_export_def stamp_task_id_def dispatch_arguments_def
        merge_option_eq objects_create_eq Let_def split: option.splits)

lemma job_events_filter:
  "list_all job_event evs \<Longrightarrow> filter is_create evs = [] \<and> filter is_export_submit evs = []"
proof (induction evs)
  case Nil
  then show ?case by simp
next
  case (Cons ev evs)
  then show ?case by (cases ev) auto
qed

lemma apply_async_trace:
  assumes "job_trace body" and "apply_async cfg j body kw n w = (r, w2)"
  shows "\<exists>evs. trace w2 = trace w @ EvSubmit j kw n # evs \<and> list_all job_event evs
           \<and> (\<forall>h. r = Inr h \<longrightarrow> result_task_id h = next_task w)
           \<and> (\<not> CELERY_ALWAYS_EAGER cfg \<longrightarrow>
                evs = [] \<and> db w2 = db w \<and> r = Inr \<lparr>result_task_id = next_task w\<rparr>)"
proof -
  define w1 where "w1 = emit (EvSubmit j kw n) (w\<lparr>next_task := next_task w + 1\<rparr>)"
  have t1: "trace w1 = trace w @ [EvSubmit j kw n]" and d1: "db w1 = db w"
    by (simp_all add: w1_def)
  from assms(1) obtain evs where evs: "trace (snd (body kw w1)) = trace w1 @ evs"
    "list_all job_event evs"
    unfolding job_trace_def by blast
  show ?thesis
  proof (cases "CELERY_ALWAYS_EAGER cfg")
    case True
    then have "w2 = snd (body kw w1)" and "\<forall>h. r = Inr h \<longrightarrow> result_task_id h = next_task w"
      using assms(2) unfolding apply_async_def w1_def [symmetric] Let_def
      by (auto split: prod.splits sum.splits if_splits)
    then show ?thesis using evs t1 True by simp
  next
    case False
    then have "w2 = w1" and "r = Inr \<lparr>result_task_id = next_task w\<rparr>"
      using assms(2) unfolding apply_async_def w1_def [symmetric] Let_def by auto
    then show ?thesis using t1 d1 False by simp
  qed
qed

subsection \<open>The dispatcher, step by step\<close>

lemma stamp_after_submit:
  assumes jt: "job_trace body" and j: "j \<noteq> DeleteTask"
    and eq: "stamp_task_id cfg (fst (objects_create xf t w))
               (apply_async cfg j body kw 10 (snd (objects_create xf t w))) = (Inr res, w')"
  shows "\<exists>export result.
           res = Some (export, result)
         \<and> filter is_create (new_events w w') =
             [EvCreate \<lparr>export_pk = next_pk w, export_xform = xf, export_type = t,
                        internal_status = PENDING, task_id = None, filename = None\<rparr>]
         \<and> filter is_export_submit (new_events w w') = [EvSubmit j kw 10]
         \<and> (if CELERY_ALWAYS_EAGER cfg
             then \<exists>evs r. new_events w w' = evs @ [EvGet (next_pk w) (Some r), EvSave export]
                    \<and> export = r\<lparr>task_id := Some (result_task_id result)\<rparr>
             else new_events w w' =
                    [EvCreate \<lparr>export_pk = next_pk w, export_xform = xf, export_type = t,
                               internal_status = PENDING, task_id = None, filename = None\<rparr>,
                     EvSubmit j kw 10, EvSave export]
                  \<and> export = \<lparr>export_pk = next_pk w, export_xform = xf, export_type = t,
                              internal_status = PENDING,
                              task_id = Some (result_task_id result), filename = None\<rparr>)
         \<and> task_id export = Some (result_task_id result)
         \<and> result_task_id result = next_task w
         \<and> export_pk export = next_pk w
         \<and> db w' (next_pk w) = Some export"
proof -
  define e0 where "e0 = \<lparr>export_pk = next_pk w, export_xform = xf, export_type = t,
                         internal_status = PENDING, task_id = None, filename = None\<rparr>"
  define w1 where "w1 = snd (objects_create xf t w)"
  have c: "fst (objects_create xf t w) = e0" and t1: "trace w1 = trace w @ [EvCreate e0]"
    and n1: "next_task w1 = next_task w"
    by (simp_all add: objects_create_eq e0_def w1_def)
  obtain r w2 where ap: "apply_async cfg j body kw 10 w1 = (r, w2)"
    by (cases "apply_async cfg j body kw 10 w1") auto
  from apply_async_trace [OF jt ap] obtain evs where
    t2: "trace w2 = trace w1 @ EvSubmit j kw 10 # evs" and je: "list_all job_event evs"
    and tid: "\<forall>h. r = Inr h \<longrightarrow> result_task_id h = next_task w1"
    and queued: "\<not> CELERY_ALWAYS_EAGER cfg \<longrightarrow>
                   evs = [] \<and> db w2 = db w1 \<and> r = Inr \<lparr>result_task_id = next_task w1\<rparr>"
    by blast
  from eq obtain result where r: "r = Inr result"
    unfolding c w1_def [symmetric] ap stamp_task_id_def by (cases r) auto
  have tid': "result_task_id result = next_task w" using tid r n1 by simp
  note fl = job_events_filter [OF je]
  show ?thesis
  proof (cases "CELERY_ALWAYS_EAGER cfg")
    case True
    from eq obtain r0 where g: "db w2 (next_pk w) = Some r0"
      and res: "res = Some (r0\<lparr>export_pk := next_pk w, task_id := Some (result_task_id result)\<rparr>, result)"
      and w': "w' = save (r0\<lparr>export_pk := next_pk w, task_id := Some (result_task_id result)\<rparr>)
                      (emit (EvGet (next_pk w) (Some (r0\<lparr>export_pk := next_pk w\<rparr>))) w2)"
      unfolding c w1_def [symmetric] ap stamp_task_id_def r
      using True
      by (auto simp: result_truthy_def objects_get_def e0_def Let_def split: option.splits)
    have tr: "trace w' = trace w @ (EvCreate e0 # EvSubmit j kw 10 # evs) @
                [EvGet (next_pk w) (Some (r0\<lparr>export_pk := next_pk w\<rparr>)),
                 EvSave (r0\<lparr>export_pk := next_pk w, task_id := Some (result_task_id result)\<rparr>)]"
      by (simp add: w' save_def t2 t1)
    have ne: "new_events w w' = (EvCreate e0 # EvSubmit j kw 10 # evs) @
                [EvGet (next_pk w) (Some (r0\<lparr>export_pk := next_pk w\<rparr>)),
                 EvSave (r0\<lparr>export_pk := next_pk w, task_id := Some (result_task_id result)\<rparr>)]"
      using tr by (rule new_events_append)
    have db': "db w' (next_pk w) =
                 Some (r0\<lparr>export_pk := next_pk w, task_id := Some (result_task_id result)\<rparr>)"
      by (simp add: w' save_def)
    show ?thesis
      unfolding res e0_def [symmetric]
      using True tid' db' fl j
      by (auto simp: ne)
  next
    case False
    with queued have q: "evs = []" "db w2 = db w1" by simp_all
    from eq have res: "res = Some (e0\<lparr>task_id := Some (result_task_id result)\<rparr>, result)"
      and w': "w' = save (e0\<lparr>task_id := Some (result_task_id result)\<rparr>) w2"
      unfolding c w1_def [symmetric] ap stamp_task_id_def r
      using False
      by (auto simp: result_truthy_def Let_def)
    have tr: "trace w' = trace w @
                [EvCreate e0, EvSubmit j kw 10, EvSave (e0\<lparr>task_id := Some (result_task_id result)\<rparr>)]"
      by (simp add: w' save_def t2 t1 q)
    have ne: "new_events w w' =
                [EvCreate e0, EvSubmit j kw 10, EvSave (e0\<lparr>task_id := Some (result_task_id result)\<rparr>)]"
      using tr by (rule new_events_append)
    have db': "db w' (next_pk w) = Some (e0\<lparr>task_id := Some (result_task_id result)\<rparr>)"
      by (simp add: w' save_def e0_def)
    show ?thesis
      unfolding res
      using False tid' db' j
      by (simp add: ne) (simp add: e0_def)
  qed
qed

lemma create_async_export_normal:
  assumes "supported t"
  shows "\<exists>body :: kwargs \<Rightarrow> world \<Rightarrow> (exc + int option) \<times> world.
           job_trace body
         \<and> (\<forall>q fx options w.
               create_async_export cfg col xf t q fx options w =
                 stamp_task_id cfg (fst (objects_create xf t w))
                   (apply_async cfg (job_for t) body
                      (dispatch_arguments xf t (next_pk w) q options) 10
                      (snd (objects_create xf t w))))"
proof (cases t)
  case XLS_EXPORT
  then show ?thesis
    using job_trace_xls [of col] create_async_export_xls [of t cfg col xf] by auto
next
  case GDOC_EXPORT
  then show ?thesis
    using job_trace_xls [of col] create_async_export_xls [of t cfg col xf] by auto
next
  case CSV_EXPORT
  then show ?thesis
    using job_trace_csv [of col] create_async_export_csv [of t cfg col xf] by auto
next
  case CSV_ZIP_EXPORT
  then show ?thesis
    using job_trace_csv_zip [of col] create_async_export_csv_zip [of t cfg col xf] by auto
next
  case SAV_ZIP_EXPORT
  then show ?thesis
    using job_trace_sav_zip [of col] create_async_export_sav_zip [of t cfg col xf] by auto
next
  case ZIP_EXPORT
  then show ?thesis
    using job_trace_zip [of cfg col] create_async_export_zip [of t cfg col xf] by auto
next
  case KML_EXPORT
  then show ?thesis
    using job_trace_kml [of col] create_async_export_kml [of t cfg col xf] by auto
next
  case EXTERNAL_EXPORT
  then show ?thesis
    using job_trace_external [of col] create_async_export_external [of t cfg col xf] by auto
next
  case (UNSUPPORTED s)
  then show ?thesis using assms by simp
qed

lemma supported_job: "supported t \<Longrightarrow> job_for t \<noteq> DeleteTask"
  by (cases t) auto

lemma stamp_queued:
  "\<not> CELERY_ALWAYS_EAGER cfg \<Longrightarrow>
   \<exists>export result w'. stamp_task_id cfg e0 (apply_async cfg j body kw n w1) =
      (Inr (Some (export, result)), w')"
  by (simp add: stamp_task_id_def apply_async_def result_truthy_def Let_def)


lemma stamp_trace:
  "\<exists>more. trace (snd (stamp_task_id cfg e (r, w2))) = trace w2 @ more"
  by (auto simp: stamp_task_id_def objects_get_def save_def Let_def
      split: sum.splits option.splits)

lemma dispatch_prefix:
  assumes "supported t"
  shows "\<exists>rest. new_events w (snd (create_async_export cfg col xf t query force_xlsx options w)) =
           EvCreate \<lparr>export_pk = next_pk w, export_xform = xf, export_type = t,
                     internal_status = PENDING, task_id = None, filename = None\<rparr>
           # EvSubmit (job_for t) (dispatch_arguments xf t (next_pk w) query options) 10 # rest"
proof -
  from create_async_export_normal [OF assms, of cfg col xf]
  obtain body :: "kwargs \<Rightarrow> world \<Rightarrow> (exc + int option) \<times> world"
    where jt: "job_trace body"
      and nf: "\<And>q fx options w.
                 create_async_export cfg col xf t q fx options w =
                   stamp_task_id cfg (fst (objects_create xf t w))
                     (apply_async cfg (job_for t) body
                        (dispatch_arguments xf t (next_pk w) q options) 10
                        (snd (objects_create xf t w)))"
    by blast
  define w1 where "w1 = snd (objects_create xf t w)"
  define kw where "kw = dispatch_arguments xf t (next_pk w) query options"
  have t1: "trace w1 = trace w @
      [EvCreate \<lparr>export_pk = next_pk w, export_xform = xf, export_type = t,
                 internal_status = PENDING, task_id = None, filename = None\<rparr>]"
    by (simp add: w1_def objects_create_eq)
  obtain r w2 where ap: "apply_async cfg (job_for t) body kw 10 w1 = (r, w2)"
    by (cases "apply_async cfg (job_for t) body kw 10 w1") auto
  from apply_async_trace [OF jt ap] obtain evs where
    t2: "trace w2 = trace w1 @ EvSubmit (job_for t) kw 10 # evs"
    by blast
  from stamp_trace [of cfg "fst (objects_create xf t w)" r w2] obtain more where
    t3: "trace (snd (stamp_task_id cfg (fst (objects_create xf t w)) (r, w2))) = trace w2 @ more"
    by blast
  have "trace (snd (create_async_export cfg col xf t query force_xlsx options w)) =
        trace w @
          (EvCreate \<lparr>export_pk = next_pk w, export_xform = xf, export_type = t,
                     internal_status = PENDING, task_id = None, filename = None\<rparr>
           # EvSubmit (job_for t) kw 10 # (evs @ more))"
    unfolding nf w1_def [symmetric] kw_def [symmetric] ap t3 t2 t1 by simp
  then show ?thesis
    unfolding kw_def by (auto dest: new_events_append)
qed

lemma map_of_concat_keys:
  "map_of (concat (map (\<lambda>k. case m k of None \<Rightarrow> [] | Some v \<Rightarrow> [(k, v)]) ks)) k =
     (if k \<in> set ks then m k else None)"
  by (induction ks) (auto split: option.splits)

lemma dispatch_arguments_keys:
  "map fst (dispatch_arguments xf t i query options) =
     [''username'', ''id_string'', ''export_id'', ''query''] @
     filter (\<lambda>k. options_map options k \<noteq> None) (relevant_keys t)"
proof -
  have "map fst (concat (map (\<lambda>k. case m k of None \<Rightarrow> [] | Some v \<Rightarrow> [(k, v)]) ks)) =
        filter (\<lambda>k. m k \<noteq> None) ks" for m :: "string \<rightharpoonup> pyval" and ks
    by (induction ks) (auto split: option.splits)
  then show ?thesis by (simp add: dispatch_arguments_def)
qed

lemma base_keys_not_relevant:
  "k \<in> set (relevant_keys t) \<Longrightarrow>
   k \<noteq> ''username'' \<and> k \<noteq> ''id_string'' \<and> k \<noteq> ''export_id'' \<and> k \<noteq> ''query''
   \<and> k \<noteq> ''force_xlsx''"
  by (cases t) auto

lemma dispatch_arguments_lookup:
  "k \<in> set (relevant_keys t) \<Longrightarrow>
   map_of (dispatch_arguments xf t i query options) k = options_map options k"
  using base_keys_not_relevant [of k t]
  by (simp add: dispatch_arguments_def map_of_concat_keys)

lemma dispatch_arguments_force_xlsx:
  "map_of (dispatch_arguments xf t i query options) ''force_xlsx'' = None"
  using base_keys_not_relevant [of "''force_xlsx''" t]
  by (auto simp: dispatch_arguments_def map_of_concat_keys)

lemma dispatch_arguments_cong:
  "\<forall>k \<in> set (relevant_keys t). options_map options k = options_map options' k \<Longrightarrow>
   dispatch_arguments xf t i query options = dispatch_arguments xf t i query options'"
  unfolding dispatch_arguments_def
  by (intro arg_cong2 [where f = append] refl arg_cong [where f = concat] map_cong) simp

lemma unsupported_type_raises:
  "create_async_export cfg col xf (UNSUPPORTED s) query force_xlsx options w =
     (Inl ExportTypeError,
      w\<lparr>db := (db w)(next_pk w \<mapsto>
              \<lparr>export_pk = next_pk w, export_xform = xf, export_type = UNSUPPORTED s,
               internal_status = PENDING, task_id = None, filename = None\<rparr>),
        next_pk := next_pk w + 1,
        trace := trace w @
          [EvCreate \<lparr>export_pk = next_pk w, export_xform = xf, export_type = UNSUPPORTED s,
                     internal_status = PENDING, task_id = None, filename = None\<rparr>]\<rparr>)"
  by (simp add: create_async_export_def objects_create_def emit_def Let_def)

lemma create_async_export_cong:
  assumes "\<forall>k \<in> set (relevant_keys t). options_map options k = options_map options' k"
  shows "create_async_export cfg col xf t query force_xlsx options w =
         create_async_export cfg col xf t query force_xlsx' options' w"
proof (cases "supported t")
  case True
  from create_async_export_normal [OF True, of cfg col xf]
  obtain body :: "kwargs \<Rightarrow> world \<Rightarrow> (exc + int option) \<times> world"
    where nf: "\<And>q fx options w.
                 create_async_export cfg col xf t q fx options w =
                   stamp_task_id cfg (fst (objects_create xf t w))
                     (apply_async cfg (job_for t) body
                        (dispatch_arguments xf t (next_pk w) q options) 10
                        (snd (objects_create xf t w)))"
    by blast
  show ?thesis
    unfolding nf dispatch_arguments_cong [OF assms] ..
next
  case False
  then obtain s where "t = UNSUPPORTED s" by (cases t) auto
  then show ?thesis by (simp add: unsupported_type_raises)
qed

lemma xls_generator_calls:
  "generator_calls (new_events w0 (snd (create_xls_export col u f i q fx gd ssm bsm w0))) =
     (if db w0 i = None then []
      else [generate_export XLS_EXPORT (if truthy fx then ''xlsx'' else ''xls'') u f i q gd ssm bsm])"
  by (auto simp: create_xls_export_def objects_get_def call_generator_def save_def
        report_exception_def emit_def new_events_def Let_def
      split: option.splits prod.splits sum.splits)

lemma call_xls_dispatched:
  assumes "t = XLS_EXPORT \<or> t = GDOC_EXPORT"
  shows "call_create_xls_export col (dispatch_arguments xf t i query options) w0 =
     create_xls_export col (xform_username xf) (xform_id_string xf) i query (PBool True)
       (kw_default (dispatch_arguments xf t i query options) ''group_delimiter'' (PStr ''/''))
       (kw_default (dispatch_arguments xf t i query options) ''split_select_multiples'' (PBool True))
       (kw_default (dispatch_arguments xf t i query options) ''binary_select_multiples'' (PBool False))
       w0"
proof -
  define kw where "kw = dispatch_arguments xf t i query options"
  have acc: "accepts [''username'', ''id_string'', ''export_id'']
              [''query'', ''force_xlsx'', ''group_delimiter'', ''split_select_multiples'',
               ''binary_select_multiples''] kw"
    using assms unfolding accepts_def kw_def dispatch_arguments_keys by auto
  have req: "required_args kw = Some (xform_username xf, xform_id_string xf, i)"
    by (simp add: required_args_def kw_def dispatch_arguments_def)
  have q: "kw_default kw ''query'' PNone = query"
    by (simp add: kw_default_def kw_def dispatch_arguments_def)
  have fx: "kw_default kw ''force_xlsx'' (PBool True) = PBool True"
    by (simp add: kw_default_def kw_def dispatch_arguments_force_xlsx)
  show ?thesis
    unfolding kw_def [symmetric] call_create_xls_export_def
    by (simp add: acc req q fx)
qed

subsection \<open>C1: the "no records found" signal\<close>

text \<open>
  C1, as the code has it. When the format generator raises the "no records found"
  signal, every job wrapper sets the internal status of the record to FAILED and saves
  it. The CSV wrapper then returns normally (a null result) and sends no report. The
  spreadsheet, geospatial, attachment-archive, CSV-archive, statistical-package-archive
  and external wrappers handle the signal like any other exception: they send one
  report to the operators and re-raise the signal.
\<close>

theorem wrappers_on_no_records:
  assumes "db w i = Some r"
  shows "(generate col (generate_export CSV_EXPORT ''csv'' u f i q gd ssm bsm) (db w) = (Inl NoRecordsFoundError, d) \<longrightarrow>
      create_csv_export col u f i q gd ssm bsm w =
        (Inr None,
         w\<lparr>db := d(i \<mapsto> r\<lparr>export_pk := i, internal_status := FAILED\<rparr>),
            trace := trace w @
              [EvGet i (Some (r\<lparr>export_pk := i\<rparr>)),
               EvGenerate (generate_export CSV_EXPORT ''csv'' u f i q gd ssm bsm),
               EvSave (r\<lparr>export_pk := i, internal_status := FAILED\<rparr>)]\<rparr>))
    \<and> (generate col (generate_export XLS_EXPORT (if \<not> truthy fx then ''xls'' else ''xlsx'') u f i q gd ssm bsm) (db w) = (Inl NoRecordsFoundError, d) \<longrightarrow>
      create_xls_export col u f i q fx gd ssm bsm w =
        (Inl NoRecordsFoundError,
         w\<lparr>db := d(i \<mapsto> r\<lparr>export_pk := i, internal_status := FAILED\<rparr>),
            trace := trace w @
              [EvGet i (Some (r\<lparr>export_pk := i\<rparr>)),
               EvGenerate (generate_export XLS_EXPORT (if \<not> truthy fx then ''xls'' else ''xlsx'') u f i q gd ssm bsm),
               EvSave (r\<lparr>export_pk := i, internal_status := FAILED\<rparr>),
               EvReport (format_details ''XLS Export Exception: Export ID - '' i u f) NoRecordsFoundError True]\<rparr>))
    \<and> (generate col (generate_kml_export KML_EXPORT ''kml'' u f i q) (db w) = (Inl NoRecordsFoundError, d) \<longrightarrow>
      create_kml_export col u f i q w =
        (Inl NoRecordsFoundError,
         w\<lparr>db := d(i \<mapsto> r\<lparr>export_pk := i, internal_status := FAILED\<rparr>),
            trace := trace w @
              [EvGet i (Some (r\<lparr>export_pk := i\<rparr>)),
               EvGenerate (generate_kml_export KML_EXPORT ''kml'' u f i q),
               EvSave (r\<lparr>export_pk := i, internal_status := FAILED\<rparr>),
               EvReport (format_details ''KML Export Exception: Export ID - '' i u f) NoRecordsFoundError True]\<rparr>))
    \<and> (generate col (generate_attachments_zip_export ZIP_EXPORT ''zip'' u f i q) (db w) = (Inl NoRecordsFoundError, d) \<longrightarrow>
      create_zip_export cfg col u f i q w =
        (Inl NoRecordsFoundError,
         w\<lparr>db := d(i \<mapsto> r\<lparr>export_pk := i, internal_status := FAILED\<rparr>),
            trace := trace w @
              [EvGet i (Some (r\<lparr>export_pk := i\<rparr>)),
               EvGenerate (generate_attachments_zip_export ZIP_EXPORT ''zip'' u f i q),
               EvSave (r\<lparr>export_pk := i, internal_status := FAILED\<rparr>),
               EvReport (format_details ''Zip Export Exception: Export ID - '' i u f) NoRecordsFoundError False]\<rparr>))
    \<and> (generate col (generate_export CSV_ZIP_EXPORT ''zip'' u f i q gd ssm bsm) (db w) = (Inl NoRecordsFoundError, d) \<longrightarrow>
      create_csv_zip_export col u f i q gd ssm bsm w =
        (Inl NoRecordsFoundError,
         w\<lparr>db := d(i \<mapsto> r\<lparr>export_pk := i, internal_status := FAILED\<rparr>),
            trace := trace w @
              [EvGet i (Some (r\<lparr>export_pk := i\<rparr>)),
               EvGenerate (generate_export CSV_ZIP_EXPORT ''zip'' u f i q gd ssm bsm),
               EvSave (r\<lparr>export_pk := i, internal_status := FAILED\<rparr>),
               EvReport (format_details ''CSV ZIP Export Exception: Export ID - '' i u f) NoRecordsFoundError True]\<rparr>))
    \<and> (generate col (generate_export SAV_ZIP_EXPORT ''zip'' u f i q gd ssm bsm) (db w) = (Inl NoRecordsFoundError, d) \<longrightarrow>
      create_sav_zip_export col u f i q gd ssm bsm w =
        (Inl NoRecordsFoundError,
         w\<lparr>db := d(i \<mapsto> r\<lparr>export_pk := i, internal_status := FAILED\<rparr>),
            trace := trace w @
              [EvGet i (Some (r\<lparr>export_pk := i\<rparr>)),
               EvGenerate (generate_export SAV_ZIP_EXPORT ''zip'' u f i q gd ssm bsm),
               EvSave (r\<lparr>export_pk := i, internal_status := FAILED\<rparr>),
               EvReport (format_details ''SAV ZIP Export Exception: Export ID - '' i u f) NoRecordsFoundError True]\<rparr>))
    \<and> (generate col (generate_external_export EXTERNAL_EXPORT u f i tok q meta) (db w) = (Inl NoRecordsFoundError, d) \<longrightarrow>
      create_external_export col u f i q tok meta w =
        (Inl NoRecordsFoundError,
         w\<lparr>db := d(i \<mapsto> r\<lparr>export_pk := i, internal_status := FAILED\<rparr>),
            trace := trace w @
              [EvGet i (Some (r\<lparr>export_pk := i\<rparr>)),
               EvGenerate (generate_external_export EXTERNAL_EXPORT u f i tok q meta),
               EvSave (r\<lparr>export_pk := i, internal_status := FAILED\<rparr>),
               EvReport (format_details ''External Export Exception: Export ID - '' i u f) NoRecordsFoundError True]\<rparr>))"
  by (intro conjI impI;
      (erule csv_no_records [OF assms(1)] | erule xls_raise [OF assms(1)]
       | erule kml_raise [OF assms(1)] | erule zip_raise [OF assms(1)]
       | erule csv_zip_raise [OF assms(1)] | erule sav_zip_raise [OF assms(1)]
       | erule external_raise [OF assms(1)]))

theorem wrappers_on_no_records_witness:
  "db world1 1 = Some record1
   \<and> generate (raising NoRecordsFoundError)
        (generate_export CSV_EXPORT ''csv'' ''bob'' ''tutorial'' 1 PNone (PStr ''/'') (PBool True)
           (PBool False)) (db world1) = (Inl NoRecordsFoundError, db world1)
   \<and> create_csv_export (raising NoRecordsFoundError) ''bob'' ''tutorial'' 1 PNone
        (PStr ''/'') (PBool True) (PBool False) world1 =
       (Inr None,
        world1\<lparr>db := [1 \<mapsto> record1\<lparr>internal_status := FAILED\<rparr>],
               trace :=
                 [EvGet 1 (Some record1),
                  EvGenerate (generate_export CSV_EXPORT ''csv'' ''bob'' ''tutorial'' 1 PNone
                     (PStr ''/'') (PBool True) (PBool False)),
                  EvSave (record1\<lparr>internal_status := FAILED\<rparr>)]\<rparr>)
   \<and> fst (create_kml_export (raising NoRecordsFoundError) ''bob'' ''tutorial'' 1 PNone world1) =
       Inl NoRecordsFoundError"
  using wrappers_on_no_records
    [where w = world1 and i = 1 and r = record1
       and col = "raising NoRecordsFoundError" and u = "''bob''"
       and f = "''tutorial''" and q = PNone and gd = "PStr ''/''" and ssm = "PBool True"
       and bsm = "PBool False" and d = "db world1"]
  by (simp add: world1_def record1_def raising_def)


text \<open>
  The spreadsheet wrapper on a record whose generator finds no records: the signal
  leaves the wrapper and a report is sent.
\<close>

theorem create_xls_export_no_records_reports_and_raises:
  "fst (create_xls_export (raising NoRecordsFoundError) ''bob'' ''tutorial'' 1 PNone (PBool True)
          (PStr ''/'') (PBool True) (PBool False) world1) = Inl NoRecordsFoundError
   \<and> new_events world1
        (snd (create_xls_export (raising NoRecordsFoundError) ''bob'' ''tutorial'' 1 PNone
                (PBool True) (PStr ''/'') (PBool True) (PBool False) world1)) =
       [EvGet 1 (Some record1),
        EvGenerate (generate_export XLS_EXPORT ''xlsx'' ''bob'' ''tutorial'' 1 PNone (PStr ''/'')
           (PBool True) (PBool False)),
        EvSave (record1\<lparr>internal_status := FAILED\<rparr>),
        EvReport ''XLS Export Exception: Export ID - 1, /bob/tutorial'' NoRecordsFoundError True]"
  by (simp add: create_xls_export_def objects_get_def call_generator_def save_def
        report_exception_def emit_def new_events_def Let_def world1_def record1_def
        raising_def format_details_def str_int_def str_nat.simps)


subsection \<open>C2: a record that is missing\<close>

text \<open>
  C2 at the CSV wrapper, called for the id 7, which the table does not hold:
  \<^verbatim>\<open>Export.DoesNotExist\<close> leaves the wrapper (the lookup stands outside any
  \<^verbatim>\<open>try\<close>); nothing is written.
\<close>

theorem create_csv_export_missing_record_raises:
  "create_csv_export succeeding ''bob'' ''tutorial'' 7 PNone (PStr ''/'') (PBool True)
     (PBool False) world1 =
   (Inl DoesNotExist, world1\<lparr>trace := [EvGet 7 None]\<rparr>)"
  by (simp add: create_csv_export_def objects_get_def emit_def world1_def)

subsection \<open>C3: an unexpected exception of the generator\<close>

text \<open>
  C3. For every job wrapper, when the format generator raises an exception \<open>e\<close> other
  than the "no records found" signal, the wrapper first sets the internal status of the
  record to FAILED and saves it, then sends exactly one report to the operators, and
  then re-raises: the exception \<open>e\<close> leaves the wrapper. The subject of the report is
  the label of the job type, then the record id in decimal (the numeral \<open>str_int\<close>
  writes denotes the id), then \<^verbatim>\<open>, /\<close>, the owner, \<^verbatim>\<open>/\<close> and the form identifier; the
  report carries the exception. The trace shows the order: the save precedes the
  report, and nothing follows.
\<close>

theorem wrappers_escalate_unexpected_exception:
  assumes "db w i = Some r" and "e \<noteq> NoRecordsFoundError"
  shows "(generate col (generate_export XLS_EXPORT (if \<not> truthy fx then ''xls'' else ''xlsx'') u f i q gd ssm bsm) (db w) = (Inl e, d) \<longrightarrow>
      create_xls_export col u f i q fx gd ssm bsm w =
        (Inl e,
         w\<lparr>db := d(i \<mapsto> r\<lparr>export_pk := i, internal_status := FAILED\<rparr>),
            trace := trace w @
              [EvGet i (Some (r\<lparr>export_pk := i\<rparr>)),
               EvGenerate (generate_export XLS_EXPORT (if \<not> truthy fx then ''xls'' else ''xlsx'') u f i q gd ssm bsm),
               EvSave (r\<lparr>export_pk := i, internal_status := FAILED\<rparr>),
               EvReport (''XLS Export Exception: Export ID - '' @ str_int i @ '', /'' @ u @ ''/'' @ f) e True]\<rparr>))
    \<and> (generate col (generate_export CSV_EXPORT ''csv'' u f i q gd ssm bsm) (db w) = (Inl e, d) \<longrightarrow>
      create_csv_export col u f i q gd ssm bsm w =
        (Inl e,
         w\<lparr>db := d(i \<mapsto> r\<lparr>export_pk := i, internal_status := FAILED\<rparr>),
            trace := trace w @
              [EvGet i (Some (r\<lparr>export_pk := i\<rparr>)),
               EvGenerate (generate_export CSV_EXPORT ''csv'' u f i q gd ssm bsm),
               EvSave (r\<lparr>export_pk := i, internal_status := FAILED\<rparr>),
               EvReport (''CSV Export Exception: Export ID - '' @ str_int i @ '', /'' @ u @ ''/'' @ f) e True]\<rparr>))
    \<and> (generate col (generate_kml_export KML_EXPORT ''kml'' u f i q) (db w) = (Inl e, d) \<longrightarrow>
      create_kml_export col u f i q w =
        (Inl e,
         w\<lparr>db := d(i \<mapsto> r\<lparr>export_pk := i, internal_status := FAILED\<rparr>),
            trace := trace w @
              [EvGet i (Some (r\<lparr>export_pk := i\<rparr>)),
               EvGenerate (generate_kml_export KML_EXPORT ''kml'' u f i q),
               EvSave (r\<lparr>export_pk := i, internal_status := FAILED\<rparr>),
               EvReport (''KML Export Exception: Export ID - '' @ str_int i @ '', /'' @ u @ ''/'' @ f) e True]\<rparr>))
    \<and> (generate col (generate_attachments_zip_export ZIP_EXPORT ''zip'' u f i q) (db w) = (Inl e, d) \<longrightarrow>
      create_zip_export cfg col u f i q w =
        (Inl e,
         w\<lparr>db := d(i \<mapsto> r\<lparr>export_pk := i, internal_status := FAILED\<rparr>),
            trace := trace w @
              [EvGet i (Some (r\<lparr>export_pk := i\<rparr>)),
               EvGenerate (generate_attachments_zip_export ZIP_EXPORT ''zip'' u f i q),
               EvSave (r\<lparr>export_pk := i, internal_status := FAILED\<rparr>),
               EvReport (''Zip Export Exception: Export ID - '' @ str_int i @ '', /'' @ u @ ''/'' @ f) e False]\<rparr>))
    \<and> (generate col (generate_export CSV_ZIP_EXPORT ''zip'' u f i q gd ssm bsm) (db w) = (Inl e, d) \<longrightarrow>
      create_csv_zip_export col u f i q gd ssm bsm w =
        (Inl e,
         w\<lparr>db := d(i \<mapsto> r\<lparr>export_pk := i, internal_status := FAILED\<rparr>),
            trace := trace w @
              [EvGet i (Some (r\<lparr>export_pk := i\<rparr>)),
               EvGenerate (generate_export CSV_ZIP_EXPORT ''zip'' u f i q gd ssm bsm),
               EvSave (r\<lparr>export_pk := i, internal_status := FAILED\<rparr>),
               EvReport (''CSV ZIP Export Exception: Export ID - '' @ str_int i @ '', /'' @ u @ ''/'' @ f) e True]\<rparr>))
    \<and> (generate col (generate_export SAV_ZIP_EXPORT ''zip'' u f i q gd ssm bsm) (db w) = (Inl e, d) \<longrightarrow>
      create_sav_zip_export col u f i q gd ssm bsm w =
        (Inl e,
         w\<lparr>db := d(i \<mapsto> r\<lparr>export_pk := i, internal_status := FAILED\<rparr>),
            trace := trace w @
              [EvGet i (Some (r\<lparr>export_pk := i\<rparr>)),
               EvGenerate (generate_export SAV_ZIP_EXPORT ''zip'' u f i q gd ssm bsm),
               EvSave (r\<lparr>export_pk := i, internal_status := FAILED\<rparr>),
               EvReport (''SAV ZIP Export Exception: Export ID - '' @ str_int i @ '', /'' @ u @ ''/'' @ f) e True]\<rparr>))
    \<and> (generate col (generate_external_export EXTERNAL_EXPORT u f i tok q meta) (db w) = (Inl e, d) \<longrightarrow>
      create_external_export col u f i q tok meta w =
        (Inl e,
         w\<lparr>db := d(i \<mapsto> r\<lparr>export_pk := i, internal_status := FAILED\<rparr>),
            trace := trace w @
              [EvGet i (Some (r\<lparr>export_pk := i\<rparr>)),
               EvGenerate (generate_external_export EXTERNAL_EXPORT u f i tok q meta),
               EvSave (r\<lparr>export_pk := i, internal_status := FAILED\<rparr>),
               EvReport (''External Export Exception: Export ID - '' @ str_int i @ '', /'' @ u @ ''/'' @ f) e True]\<rparr>))
    \<and> int_of_decimal (str_int i) = i"
  by (intro conjI impI;
      (erule xls_raise [OF assms(1), unfolded format_details_def] | erule csv_raise [OF assms(1) assms(2), unfolded format_details_def]
       | erule kml_raise [OF assms(1), unfolded format_details_def] | erule zip_raise [OF assms(1), unfolded format_details_def]
       | erule csv_zip_raise [OF assms(1), unfolded format_details_def] | erule sav_zip_raise [OF assms(1), unfolded format_details_def]
       | erule external_raise [OF assms(1), unfolded format_details_def]
       | rule int_of_decimal_str_int))

theorem wrappers_escalate_unexpected_exception_witness:
  "db world42 42 = Some record42
   \<and> OtherException ''disk full'' \<noteq> NoRecordsFoundError
   \<and> generate (raising (OtherException ''disk full''))
        (generate_export CSV_EXPORT ''csv'' ''alice'' ''survey'' 42 PNone (PStr ''/'') (PBool True)
           (PBool False)) (db world42) = (Inl (OtherException ''disk full''), db world42)
   \<and> create_csv_export (raising (OtherException ''disk full'')) ''alice'' ''survey'' 42 PNone
        (PStr ''/'') (PBool True) (PBool False) world42 =
       (Inl (OtherException ''disk full''),
        world42\<lparr>db := [42 \<mapsto> record42\<lparr>internal_status := FAILED\<rparr>],
                trace :=
                  [EvGet 42 (Some record42),
                   EvGenerate (generate_export CSV_EXPORT ''csv'' ''alice'' ''survey'' 42 PNone
                      (PStr ''/'') (PBool True) (PBool False)),
                   EvSave (record42\<lparr>internal_status := FAILED\<rparr>),
                   EvReport ''CSV Export Exception: Export ID - 42, /alice/survey''
                     (OtherException ''disk full'') True]\<rparr>)
   \<and> generate (raising (OtherException ''disk full''))
        (generate_attachments_zip_export ZIP_EXPORT ''zip'' ''alice'' ''survey'' 42 PNone)
        (db world42) = (Inl (OtherException ''disk full''), db world42)
   \<and> create_zip_export worker_settings (raising (OtherException ''disk full'')) ''alice''
        ''survey'' 42 PNone world42 =
       (Inl (OtherException ''disk full''),
        world42\<lparr>db := [42 \<mapsto> record42\<lparr>internal_status := FAILED\<rparr>],
                trace :=
                  [EvGet 42 (Some record42),
                   EvGenerate (generate_attachments_zip_export ZIP_EXPORT ''zip'' ''alice''
                      ''survey'' 42 PNone),
                   EvSave (record42\<lparr>internal_status := FAILED\<rparr>),
                   EvReport ''Zip Export Exception: Export ID - 42, /alice/survey''
                     (OtherException ''disk full'') False]\<rparr>)"
proof -
  have r: "db world42 42 = Some record42"
    by (simp add: world42_def)
  have e: "OtherException ''disk full'' \<noteq> NoRecordsFoundError"
    by simp
  have g1: "generate (raising (OtherException ''disk full''))
        (generate_export CSV_EXPORT ''csv'' ''alice'' ''survey'' 42 PNone (PStr ''/'') (PBool True)
           (PBool False)) (db world42) = (Inl (OtherException ''disk full''), db world42)"
    and g2: "generate (raising (OtherException ''disk full''))
        (generate_attachments_zip_export ZIP_EXPORT ''zip'' ''alice'' ''survey'' 42 PNone)
        (db world42) = (Inl (OtherException ''disk full''), db world42)"
    by (simp_all add: raising_def)
  have n: "str_int 42 = ''42''"
    by (simp add: str_int_def str_nat.simps)
  have pk: "record42\<lparr>export_pk := 42\<rparr> = record42"
    by (simp add: record42_def)
  have d: "(db world42)(42 \<mapsto> x) = [42 \<mapsto> x]" for x
    by (simp add: world42_def)
  have t: "trace world42 = []"
    by (simp add: world42_def)
  note T = wrappers_escalate_unexpected_exception
    [OF r e, where col = "raising (OtherException ''disk full'')" and u = "''alice''"
       and f = "''survey''" and q = PNone and gd = "PStr ''/''" and ssm = "PBool True"
       and bsm = "PBool False" and d = "db world42" and cfg = worker_settings]
  have c1: "create_csv_export (raising (OtherException ''disk full'')) ''alice'' ''survey'' 42 PNone
        (PStr ''/'') (PBool True) (PBool False) world42 =
       (Inl (OtherException ''disk full''),
        world42\<lparr>db := [42 \<mapsto> record42\<lparr>internal_status := FAILED\<rparr>],
                trace :=
                  [EvGet 42 (Some record42),
                   EvGenerate (generate_export CSV_EXPORT ''csv'' ''alice'' ''survey'' 42 PNone
                      (PStr ''/'') (PBool True) (PBool False)),
                   EvSave (record42\<lparr>internal_status := FAILED\<rparr>),
                   EvReport ''CSV Export Exception: Export ID - 42, /alice/survey''
                     (OtherException ''disk full'') True]\<rparr>)"
    using T [THEN conjunct2, THEN conjunct1, THEN mp, OF g1]
    by (simp add: n pk d t)
  have c2: "create_zip_export worker_settings (raising (OtherException ''disk full'')) ''alice''
        ''survey'' 42 PNone world42 =
       (Inl (OtherException ''disk full''),
        world42\<lparr>db := [42 \<mapsto> record42\<lparr>internal_status := FAILED\<rparr>],
                trace :=
                  [EvGet 42 (Some record42),
                   EvGenerate (generate_attachments_zip_export ZIP_EXPORT ''zip'' ''alice''
                      ''survey'' 42 PNone),
                   EvSave (record42\<lparr>internal_status := FAILED\<rparr>),
                   EvReport ''Zip Export Exception: Export ID - 42, /alice/survey''
                     (OtherException ''disk full'') False]\<rparr>)"
    using T [THEN conjunct2, THEN conjunct2, THEN conjunct2, THEN conjunct1, THEN mp, OF g2]
    by (simp add: n pk d t)
  show ?thesis
    using r e g1 c1 g2 c2 by (intro conjI)
qed

subsection \<open>C4: a successful dispatch\<close>

text \<open>
  The scenario of the specification: a CSV export with the group delimiter "|" of a form
  without submissions, with a scheduler that runs the job at once.
\<close>

lemma csv_scenario:
  "fst (create_async_export eager_settings (raising NoRecordsFoundError) bob_form CSV_EXPORT
          PNone (PBool False) (Some [(''group_delimiter'', PStr ''|'')]) world0) =
   Inr (Some (\<lparr>export_pk = 1, export_xform = bob_form, export_type = CSV_EXPORT,
                internal_status = FAILED, task_id = Some 0, filename = None\<rparr>,
              \<lparr>result_task_id = 0\<rparr>))"
  by (simp add: create_async_export_def objects_create_def merge_option_def apply_async_def
        call_create_csv_export_def accepts_def required_args_def kw_default_def
        create_csv_export_def objects_get_def call_generator_def save_def emit_def
        world0_def eager_settings_def raising_def result_truthy_def Let_def)


text \<open>
  C4. For every supported export type, a dispatch that returns has created exactly one
  record, has submitted exactly one export job, the one the type is routed to, with the
  arguments built for the type and a countdown of 10, and returns the pair of the record
  and the handle, the record stamped with the task identifier of the handle and saved
  in the table under its id. When the scheduler runs jobs synchronously, the record
  stamped and saved is the one fetched again after the submission, hence as the job
  left it; otherwise it is the record as created. With a scheduler that queues jobs
  the dispatch of a supported type always returns.
\<close>

theorem create_async_export_supported:
  assumes "supported t"
  shows "(\<forall>res w'.
            create_async_export cfg col xf t query force_xlsx options w = (Inr res, w') \<longrightarrow>
            (\<exists>export result.
               res = Some (export, result)
             \<and> filter is_create (new_events w w') =
                 [EvCreate \<lparr>export_pk = next_pk w, export_xform = xf, export_type = t,
                            internal_status = PENDING, task_id = None, filename = None\<rparr>]
             \<and> filter is_export_submit (new_events w w') =
                 [EvSubmit (job_for t) (dispatch_arguments xf t (next_pk w) query options) 10]
             \<and> (if CELERY_ALWAYS_EAGER cfg
                 then \<exists>evs r. new_events w w' =
                          evs @ [EvGet (next_pk w) (Some r), EvSave export]
                        \<and> export = r\<lparr>task_id := Some (result_task_id result)\<rparr>
                 else new_events w w' =
                        [EvCreate \<lparr>export_pk = next_pk w, export_xform = xf, export_type = t,
                                   internal_status = PENDING, task_id = None,
                                   filename = None\<rparr>,
                         EvSubmit (job_for t)
                           (dispatch_arguments xf t (next_pk w) query options) 10,
                         EvSave export]
                      \<and> export = \<lparr>export_pk = next_pk w, export_xform = xf, export_type = t,
                                  internal_status = PENDING,
                                  task_id = Some (result_task_id result), filename = None\<rparr>)
             \<and> task_id export = Some (result_task_id result)
             \<and> result_task_id result = next_task w
             \<and> export_pk export = next_pk w
             \<and> db w' (next_pk w) = Some export))
       \<and> (\<not> CELERY_ALWAYS_EAGER cfg \<longrightarrow>
            (\<exists>export result w'.
               create_async_export cfg col xf t query force_xlsx options w =
                 (Inr (Some (export, result)), w')))"
proof -
  from create_async_export_normal [OF assms, of cfg col xf]
  obtain body :: "kwargs \<Rightarrow> world \<Rightarrow> (exc + int option) \<times> world"
    where jt: "job_trace body"
      and nf: "\<And>q fx options w.
                 create_async_export cfg col xf t q fx options w =
                   stamp_task_id cfg (fst (objects_create xf t w))
                     (apply_async cfg (job_for t) body
                        (dispatch_arguments xf t (next_pk w) q options) 10
                        (snd (objects_create xf t w)))"
    by blast
  note j = supported_job [OF assms]
  show ?thesis
  proof (intro conjI allI impI)
    fix res w'
    assume "create_async_export cfg col xf t query force_xlsx options w = (Inr res, w')"
    then have "stamp_task_id cfg (fst (objects_create xf t w))
                 (apply_async cfg (job_for t) body
                    (dispatch_arguments xf t (next_pk w) query options) 10
                    (snd (objects_create xf t w))) = (Inr res, w')"
      by (simp only: nf)
    from stamp_after_submit [OF jt j this]
    show "\<exists>export result.
               res = Some (export, result)
             \<and> filter is_create (new_events w w') =
                 [EvCreate \<lparr>export_pk = next_pk w, export_xform = xf, export_type = t,
                            internal_status = PENDING, task_id = None, filename = None\<rparr>]
             \<and> filter is_export_submit (new_events w w') =
                 [EvSubmit (job_for t) (dispatch_arguments xf t (next_pk w) query options) 10]
             \<and> (if CELERY_ALWAYS_EAGER cfg
                 then \<exists>evs r. new_events w w' =
                          evs @ [EvGet (next_pk w) (Some r), EvSave export]
                        \<and> export = r\<lparr>task_id := Some (result_task_id result)\<rparr>
                 else new_events w w' =
                        [EvCreate \<lparr>export_pk = next_pk w, export_xform = xf, export_type = t,
                                   internal_status = PENDING, task_id = None,
                                   filename = None\<rparr>,
                         EvSubmit (job_for t)
                           (dispatch_arguments xf t (next_pk w) query options) 10,
                         EvSave export]
                      \<and> export = \<lparr>export_pk = next_pk w, export_xform = xf, export_type = t,
                                  internal_status = PENDING,
                                  task_id = Some (result_task_id result), filename = None\<rparr>)
             \<and> task_id export = Some (result_task_id result)
             \<and> result_task_id result = next_task w
             \<and> export_pk export = next_pk w
             \<and> db w' (next_pk w) = Some export" .
  next
    assume "\<not> CELERY_ALWAYS_EAGER cfg"
    from stamp_queued [OF this]
    show "\<exists>export result w'.
               create_async_export cfg col xf t query force_xlsx options w =
                 (Inr (Some (export, result)), w')"
      unfolding nf .
  qed
qed

theorem create_async_export_supported_witness:
  "supported CSV_EXPORT
   \<and> create_async_export eager_settings (raising NoRecordsFoundError) bob_form CSV_EXPORT
        PNone (PBool False) (Some [(''group_delimiter'', PStr ''|'')]) world0 =
       (Inr (Some (\<lparr>export_pk = 1, export_xform = bob_form, export_type = CSV_EXPORT,
                    internal_status = FAILED, task_id = Some 0, filename = None\<rparr>,
                  \<lparr>result_task_id = 0\<rparr>)),
        snd (create_async_export eager_settings (raising NoRecordsFoundError) bob_form CSV_EXPORT
               PNone (PBool False) (Some [(''group_delimiter'', PStr ''|'')]) world0))
   \<and> filter is_export_submit
        (new_events world0
           (snd (create_async_export eager_settings (raising NoRecordsFoundError) bob_form
                   CSV_EXPORT PNone (PBool False) (Some [(''group_delimiter'', PStr ''|'')])
                   world0))) =
       [EvSubmit CsvTask
          [(''username'', PStr ''bob''), (''id_string'', PStr ''tutorial''),
           (''export_id'', PInt 1), (''query'', PNone), (''group_delimiter'', PStr ''|'')] 10]
   \<and> \<not> CELERY_ALWAYS_EAGER worker_settings
   \<and> (\<exists>export result w'.
         create_async_export worker_settings succeeding bob_form CSV_EXPORT PNone (PBool False)
           None world0 = (Inr (Some (export, result)), w'))"
proof -
  have sup: "supported CSV_EXPORT" by simp
  have eq: "create_async_export eager_settings (raising NoRecordsFoundError) bob_form CSV_EXPORT
        PNone (PBool False) (Some [(''group_delimiter'', PStr ''|'')]) world0 =
       (Inr (Some (\<lparr>export_pk = 1, export_xform = bob_form, export_type = CSV_EXPORT,
                    internal_status = FAILED, task_id = Some 0, filename = None\<rparr>,
                  \<lparr>result_task_id = 0\<rparr>)),
        snd (create_async_export eager_settings (raising NoRecordsFoundError) bob_form CSV_EXPORT
               PNone (PBool False) (Some [(''group_delimiter'', PStr ''|'')]) world0))"
    using csv_scenario by (simp add: prod_eq_iff)
  have q: "\<not> CELERY_ALWAYS_EAGER worker_settings" by (simp add: worker_settings_def)
  from create_async_export_supported [OF sup, THEN conjunct1, rule_format, OF eq]
  have "filter is_export_submit
        (new_events world0
           (snd (create_async_export eager_settings (raising NoRecordsFoundError) bob_form
                   CSV_EXPORT PNone (PBool False) (Some [(''group_delimiter'', PStr ''|'')])
                   world0))) =
       [EvSubmit (job_for CSV_EXPORT)
          (dispatch_arguments bob_form CSV_EXPORT (next_pk world0) PNone
             (Some [(''group_delimiter'', PStr ''|'')])) 10]"
    by blast
  then have s: "filter is_export_submit
        (new_events world0
           (snd (create_async_export eager_settings (raising NoRecordsFoundError) bob_form
                   CSV_EXPORT PNone (PBool False) (Some [(''group_delimiter'', PStr ''|'')])
                   world0))) =
       [EvSubmit CsvTask
          [(''username'', PStr ''bob''), (''id_string'', PStr ''tutorial''),
           (''export_id'', PInt 1), (''query'', PNone), (''group_delimiter'', PStr ''|'')] 10]"
    by (simp add: dispatch_arguments_def options_map_def world0_def bob_form_def)
  note l = create_async_export_supported [OF sup, THEN conjunct2, rule_format, OF q,
      of succeeding bob_form PNone "PBool False" None world0]
  show ?thesis
    using sup eq s q l by (intro conjI)
qed

subsection \<open>C5: an export type that is not supported\<close>

text \<open>
  C5. For an export type outside the eight supported ones the dispatcher raises
  \<^verbatim>\<open>Export.ExportTypeError\<close>; the only thing it has done by then is to create the
  record, which stays in the table as pending and without a task identifier; no job is
  submitted to the scheduler.
\<close>

theorem create_async_export_unsupported:
  "create_async_export cfg col xf (UNSUPPORTED s) query force_xlsx options w =
     (Inl ExportTypeError,
      w\<lparr>db := (db w)(next_pk w \<mapsto>
              \<lparr>export_pk = next_pk w, export_xform = xf, export_type = UNSUPPORTED s,
               internal_status = PENDING, task_id = None, filename = None\<rparr>),
        next_pk := next_pk w + 1,
        trace := trace w @
          [EvCreate \<lparr>export_pk = next_pk w, export_xform = xf, export_type = UNSUPPORTED s,
                     internal_status = PENDING, task_id = None, filename = None\<rparr>]\<rparr>)"
  by (simp add: create_async_export_def objects_create_def emit_def Let_def)

subsection \<open>C6: the attachment archive and its cleanup\<close>

text \<open>
  C6. When the generator of the attachment-archive wrapper succeeds, the wrapper returns
  the id of the generated export and saves nothing (it does not touch the status of
  the record), and it submits exactly one job, the cleanup job for the generated
  export with the countdown of the settings; under the testing mode it submits none.
  Unless that cleanup runs eagerly, the table is as the generator left it, and in every
  case a record of the table is as the generator left it.
\<close>


theorem create_zip_export_success:
  assumes "db w i = Some r"
    and "generate col (generate_attachments_zip_export ZIP_EXPORT ''zip'' u f i q) (db w) = (Inr g, d)"
  shows "fst (create_zip_export cfg col u f i q w) = Inr (Some (export_pk g))
    \<and> filter is_save (new_events w (snd (create_zip_export cfg col u f i q w))) = []
    \<and> filter is_submit (new_events w (snd (create_zip_export cfg col u f i q w))) =
        (if TESTING_MODE cfg then []
         else [EvSubmit DeleteTask [(''export_id'', PInt (export_pk g))] (ZIP_EXPORT_COUNTDOWN cfg)])
    \<and> (TESTING_MODE cfg \<or> \<not> CELERY_ALWAYS_EAGER cfg \<longrightarrow>
         db (snd (create_zip_export cfg col u f i q w)) = d)
    \<and> (\<forall>k x. db (snd (create_zip_export cfg col u f i q w)) k = Some x \<longrightarrow> d k = Some x)"
proof (cases "TESTING_MODE cfg")
  case True
  then show ?thesis
    using zip_success_testing [OF True assms] by simp
next
  case False
  show ?thesis
  proof (cases "CELERY_ALWAYS_EAGER cfg")
    case True
    then show ?thesis
      using zip_success_eager [OF False True assms] False
      by (auto split: option.splits if_splits)
  next
    case eager: False
    then show ?thesis
      using zip_success_queued [OF False eager assms] False by simp
  qed
qed

theorem create_zip_export_success_witness:
  "db world1 1 = Some record1
   \<and> generate succeeding
        (generate_attachments_zip_export ZIP_EXPORT ''zip'' ''bob'' ''tutorial'' 1 PNone)
        (db world1) =
       (Inr (record1\<lparr>filename := Some ''out''\<rparr>), [1 \<mapsto> record1\<lparr>filename := Some ''out''\<rparr>])
   \<and> fst (create_zip_export worker_settings succeeding ''bob'' ''tutorial'' 1 PNone world1) =
       Inr (Some 1)
   \<and> filter is_submit
        (new_events world1
           (snd (create_zip_export worker_settings succeeding ''bob'' ''tutorial'' 1 PNone world1))) =
       [EvSubmit DeleteTask [(''export_id'', PInt 1)] 3600]
   \<and> filter is_submit
        (new_events world1
           (snd (create_zip_export test_settings succeeding ''bob'' ''tutorial'' 1 PNone world1))) =
       []"
proof -
  have h1: "db world1 1 = Some record1"
    by (simp add: world1_def)
  have h2: "generate succeeding
        (generate_attachments_zip_export ZIP_EXPORT ''zip'' ''bob'' ''tutorial'' 1 PNone)
        (db world1) =
       (Inr (record1\<lparr>filename := Some ''out''\<rparr>), [1 \<mapsto> record1\<lparr>filename := Some ''out''\<rparr>])"
    apply (simp add: world1_def succeeding_def Let_def)
    apply (simp add: record1_def)
    done
  have pk: "export_pk (record1\<lparr>filename := Some ''out''\<rparr>) = 1"
    by (simp add: record1_def)
  have s1: "\<not> TESTING_MODE worker_settings" "ZIP_EXPORT_COUNTDOWN worker_settings = 3600"
    "TESTING_MODE test_settings"
    by (simp_all add: worker_settings_def test_settings_def)
  note A = create_zip_export_success [OF h1 h2, of worker_settings, unfolded pk]
  note B = create_zip_export_success [OF h1 h2, of test_settings, unfolded pk]
  have a1: "fst (create_zip_export worker_settings succeeding ''bob'' ''tutorial'' 1 PNone world1) =
       Inr (Some 1)"
    using A by (rule conjunct1)
  have a2: "filter is_submit
        (new_events world1
           (snd (create_zip_export worker_settings succeeding ''bob'' ''tutorial'' 1 PNone world1))) =
       [EvSubmit DeleteTask [(''export_id'', PInt 1)] 3600]"
    using A [THEN conjunct2, THEN conjunct2, THEN conjunct1] s1 by simp
  have b2: "filter is_submit
        (new_events world1
           (snd (create_zip_export test_settings succeeding ''bob'' ''tutorial'' 1 PNone world1))) =
       []"
    using B [THEN conjunct2, THEN conjunct2, THEN conjunct1] s1 by simp
  show ?thesis
    using h1 h2 a1 a2 b2 by (intro conjI)
qed

subsection \<open>C7: the report on the Mongo synchronisation\<close>








lemma call_sync [simp]:
  "call_mongo_sync_status col b w = (mongo_sync_status col b, w\<lparr>trace := trace w @ [EvSyncStatus b]\<rparr>)"
  by (simp add: call_mongo_sync_status_def emit_def)








subsection \<open>C8: the cleanup job\<close>

lemma delete_export_present:
  "db w i = Some r \<Longrightarrow>
   fst (delete_export i w) = Inr True \<and> db (snd (delete_export i w)) = (db w)(i := None)"
  by (simp add: delete_export_def objects_get_present delete_def)

lemma delete_export_absent:
  "db w i = None \<Longrightarrow>
   fst (delete_export i w) = Inr False \<and> db (snd (delete_export i w)) = db w"
  by (simp add: delete_export_def objects_get_absent)

text \<open>
  C8. The cleanup job is idempotent. Called with an id whose record exists it deletes the
  record and returns true; called with an id whose record does not exist it returns
  false and leaves the table as it is; a second call for the same id returns false; and
  it raises no error in any of these cases.
\<close>

theorem delete_export_idempotent:
  "(db w i \<noteq> None \<longrightarrow>
      fst (delete_export i w) = Inr True \<and> db (snd (delete_export i w)) = (db w)(i := None))
   \<and> (db w i = None \<longrightarrow>
      fst (delete_export i w) = Inr False \<and> db (snd (delete_export i w)) = db w)
   \<and> fst (delete_export i (snd (delete_export i w))) = Inr False
   \<and> (\<exists>b. fst (delete_export i w) = Inr b)"
proof (cases "db w i")
  case None
  then show ?thesis
    using delete_export_absent [of w i] delete_export_absent [of "snd (delete_export i w)" i]
    by auto
next
  case (Some r)
  then show ?thesis
    using delete_export_present [of w i r] delete_export_absent [of "snd (delete_export i w)" i]
    by auto
qed

theorem delete_export_idempotent_witness:
  "db world1 1 \<noteq> None \<and> db world0 1 = None
   \<and> fst (delete_export 1 world1) = Inr True
   \<and> db (snd (delete_export 1 world1)) 1 = None
   \<and> fst (delete_export 1 (snd (delete_export 1 world1))) = Inr False
   \<and> fst (delete_export 1 world0) = Inr False"
  using delete_export_idempotent [of world1 1] delete_export_idempotent [of world0 1]
  by (simp add: world1_def world0_def)

subsection \<open>C9: options that do not apply to the export type\<close>

text \<open>
  C9. For every export type and every two options mappings that agree on the keys
  relevant to the type, the dispatch does the same: a key that does not apply changes
  neither the result nor the world, so it cannot make the dispatch fail. For a
  supported type the job is submitted with the argument set of the type, whose keys are
  the four basic ones followed by the relevant keys that the options hold, each with
  the value of the options.
\<close>

theorem irrelevant_options_are_dropped:
  "((\<forall>k \<in> set (relevant_keys t). options_map options k = options_map options' k) \<longrightarrow>
      create_async_export cfg col xf t query force_xlsx options w =
      create_async_export cfg col xf t query force_xlsx options' w)
   \<and> (supported t \<longrightarrow>
        (\<exists>rest. new_events w (snd (create_async_export cfg col xf t query force_xlsx options w)) =
           EvCreate \<lparr>export_pk = next_pk w, export_xform = xf, export_type = t,
                     internal_status = PENDING, task_id = None, filename = None\<rparr>
           # EvSubmit (job_for t) (dispatch_arguments xf t (next_pk w) query options) 10 # rest))
   \<and> map fst (dispatch_arguments xf t i query options) =
        [''username'', ''id_string'', ''export_id'', ''query''] @
        filter (\<lambda>k. options_map options k \<noteq> None) (relevant_keys t)
   \<and> (\<forall>k \<in> set (relevant_keys t).
        map_of (dispatch_arguments xf t i query options) k = options_map options k)"
  using create_async_export_cong [where t = t and options = options and options' = options'
      and cfg = cfg and col = col and xf = xf and query = query and force_xlsx = force_xlsx
      and force_xlsx' = force_xlsx and w = w]
    dispatch_prefix [of t w cfg col xf query force_xlsx options]
    dispatch_arguments_keys [of xf t i query options]
    dispatch_arguments_lookup [of _ t xf i query options]
  by blast

theorem irrelevant_options_are_dropped_witness:
  "relevant_keys EXTERNAL_EXPORT = [''token'', ''meta'']
   \<and> options_map (Some [(''group_delimiter'', PStr ''|''), (''token'', PStr ''abc'')]) ''token'' =
      options_map (Some [(''token'', PStr ''abc'')]) ''token''
   \<and> options_map (Some [(''group_delimiter'', PStr ''|''), (''token'', PStr ''abc'')]) ''meta'' =
      options_map (Some [(''token'', PStr ''abc'')]) ''meta''
   \<and> create_async_export worker_settings succeeding bob_form EXTERNAL_EXPORT PNone (PBool True)
        (Some [(''group_delimiter'', PStr ''|''), (''token'', PStr ''abc'')]) world0 =
      create_async_export worker_settings succeeding bob_form EXTERNAL_EXPORT PNone (PBool True)
        (Some [(''token'', PStr ''abc'')]) world0
   \<and> supported EXTERNAL_EXPORT
   \<and> map fst (dispatch_arguments bob_form EXTERNAL_EXPORT 1 PNone
                 (Some [(''group_delimiter'', PStr ''|''), (''token'', PStr ''abc'')])) =
        [''username'', ''id_string'', ''export_id'', ''query'', ''token'']"
proof -
  have h: "\<forall>k \<in> set (relevant_keys EXTERNAL_EXPORT).
      options_map (Some [(''group_delimiter'', PStr ''|''), (''token'', PStr ''abc'')]) k =
      options_map (Some [(''token'', PStr ''abc'')]) k"
    by (simp add: options_map_def)
  have s: "supported EXTERNAL_EXPORT" by simp
  note T = irrelevant_options_are_dropped
    [of EXTERNAL_EXPORT "Some [(''group_delimiter'', PStr ''|''), (''token'', PStr ''abc'')]"
        "Some [(''token'', PStr ''abc'')]" worker_settings succeeding bob_form PNone
        "PBool True" world0 1]
  note a = T [THEN conjunct1, THEN mp, OF h]
  have b: "map fst (dispatch_arguments bob_form EXTERNAL_EXPORT 1 PNone
                 (Some [(''group_delimiter'', PStr ''|''), (''token'', PStr ''abc'')])) =
        [''username'', ''id_string'', ''export_id'', ''query'', ''token'']"
    using T [THEN conjunct2, THEN conjunct2, THEN conjunct1]
    by (simp add: options_map_def)
  have k: "relevant_keys EXTERNAL_EXPORT = [''token'', ''meta'']" by simp
  have h1: "options_map (Some [(''group_delimiter'', PStr ''|''), (''token'', PStr ''abc'')]) ''token'' =
      options_map (Some [(''token'', PStr ''abc'')]) ''token''"
    and h2: "options_map (Some [(''group_delimiter'', PStr ''|''), (''token'', PStr ''abc'')]) ''meta'' =
      options_map (Some [(''token'', PStr ''abc'')]) ''meta''"
    by (simp_all add: options_map_def)
  show ?thesis using k h1 h2 a s b by (intro conjI)
qed


subsection \<open>C10: the flag force_xlsx\<close>

text \<open>
  C10. The dispatcher does the same whatever the flag \<^verbatim>\<open>force_xlsx\<close> is, and the
  argument set it builds never holds the key \<^verbatim>\<open>force_xlsx\<close>. A spreadsheet export
  (types XLS and GDOC) is submitted as the spreadsheet task with that argument set;
  called with it for a record that exists, the task calls its generator once and with
  the extension xlsx, the default of the wrapper. The wrapper called directly calls the
  generator with the extension xls exactly when \<^verbatim>\<open>force_xlsx\<close> is false.
\<close>

theorem force_xlsx_is_not_forwarded:
  "create_async_export cfg col xf t query force_xlsx options w =
   create_async_export cfg col xf t query force_xlsx' options w
   \<and> map_of (dispatch_arguments xf t i query options) ''force_xlsx'' = None
   \<and> (t = XLS_EXPORT \<or> t = GDOC_EXPORT \<longrightarrow>
        (\<exists>rest. new_events w (snd (create_async_export cfg col xf t query force_xlsx options w)) =
           EvCreate \<lparr>export_pk = next_pk w, export_xform = xf, export_type = t,
                     internal_status = PENDING, task_id = None, filename = None\<rparr>
           # EvSubmit XlsTask (dispatch_arguments xf t (next_pk w) query options) 10 # rest))
   \<and> (t = XLS_EXPORT \<or> t = GDOC_EXPORT \<longrightarrow> db w0 i \<noteq> None \<longrightarrow>
        generator_calls
          (new_events w0
             (snd (call_create_xls_export col (dispatch_arguments xf t i query options) w0))) =
        [generate_export XLS_EXPORT ''xlsx'' (xform_username xf) (xform_id_string xf) i query
           (kw_default (dispatch_arguments xf t i query options) ''group_delimiter'' (PStr ''/''))
           (kw_default (dispatch_arguments xf t i query options) ''split_select_multiples''
              (PBool True))
           (kw_default (dispatch_arguments xf t i query options) ''binary_select_multiples''
              (PBool False))])
   \<and> generator_calls
        (new_events w0 (snd (create_xls_export col u f i q fx gd ssm bsm w0))) =
       (if db w0 i = None then []
        else [generate_export XLS_EXPORT (if truthy fx then ''xlsx'' else ''xls'')
                u f i q gd ssm bsm])"
proof (intro conjI impI)
  show "create_async_export cfg col xf t query force_xlsx options w =
        create_async_export cfg col xf t query force_xlsx' options w"
    by (rule create_async_export_cong) simp
next
  show "map_of (dispatch_arguments xf t i query options) ''force_xlsx'' = None"
    by (rule dispatch_arguments_force_xlsx)
next
  assume t: "t = XLS_EXPORT \<or> t = GDOC_EXPORT"
  then have "supported t" and "job_for t = XlsTask" by auto
  then show "\<exists>rest. new_events w (snd (create_async_export cfg col xf t query force_xlsx options w)) =
           EvCreate \<lparr>export_pk = next_pk w, export_xform = xf, export_type = t,
                     internal_status = PENDING, task_id = None, filename = None\<rparr>
           # EvSubmit XlsTask (dispatch_arguments xf t (next_pk w) query options) 10 # rest"
    using dispatch_prefix [of t w cfg col xf query force_xlsx options] by simp
next
  assume t: "t = XLS_EXPORT \<or> t = GDOC_EXPORT" and r: "db w0 i \<noteq> None"
  show "generator_calls
          (new_events w0
             (snd (call_create_xls_export col (dispatch_arguments xf t i query options) w0))) =
        [generate_export XLS_EXPORT ''xlsx'' (xform_username xf) (xform_id_string xf) i query
           (kw_default (dispatch_arguments xf t i query options) ''group_delimiter'' (PStr ''/''))
           (kw_default (dispatch_arguments xf t i query options) ''split_select_multiples''
              (PBool True))
           (kw_default (dispatch_arguments xf t i query options) ''binary_select_multiples''
              (PBool False))]"
    unfolding call_xls_dispatched [OF t] xls_generator_calls using r by simp
next
  show "generator_calls
        (new_events w0 (snd (create_xls_export col u f i q fx gd ssm bsm w0))) =
       (if db w0 i = None then []
        else [generate_export XLS_EXPORT (if truthy fx then ''xlsx'' else ''xls'')
                u f i q gd ssm bsm])"
    by (rule xls_generator_calls)
qed

theorem force_xlsx_is_not_forwarded_witness:
  "db world1 1 \<noteq> None
   \<and> generator_calls
        (new_events world1
           (snd (call_create_xls_export succeeding
                   (dispatch_arguments bob_form XLS_EXPORT 1 PNone None) world1))) =
       [generate_export XLS_EXPORT ''xlsx'' ''bob'' ''tutorial'' 1 PNone (PStr ''/'') (PBool True)
          (PBool False)]
   \<and> generator_calls
        (new_events world1
           (snd (create_xls_export succeeding ''bob'' ''tutorial'' 1 PNone (PBool False)
                   (PStr ''/'') (PBool True) (PBool False) world1))) =
       [generate_export XLS_EXPORT ''xls'' ''bob'' ''tutorial'' 1 PNone (PStr ''/'') (PBool True)
          (PBool False)]
   \<and> create_async_export eager_settings succeeding bob_form XLS_EXPORT PNone (PBool False) None
        world0 =
      create_async_export eager_settings succeeding bob_form XLS_EXPORT PNone (PBool True) None
        world0"
proof -
  have r: "db world1 1 \<noteq> None" by (simp add: world1_def)
  have t: "XLS_EXPORT = XLS_EXPORT \<or> XLS_EXPORT = GDOC_EXPORT" by simp
  note T = force_xlsx_is_not_forwarded
    [where t = XLS_EXPORT and xf = bob_form and i = 1 and query = PNone and options = None
       and col = succeeding and ?w0.0 = world1 and u = "''bob''" and f = "''tutorial''"
       and q = PNone and fx = "PBool False" and gd = "PStr ''/''" and ssm = "PBool True"
       and bsm = "PBool False" and cfg = eager_settings and force_xlsx = "PBool False"
       and force_xlsx' = "PBool True" and w = world0]
  have a: "generator_calls
        (new_events world1
           (snd (call_create_xls_export succeeding
                   (dispatch_arguments bob_form XLS_EXPORT 1 PNone None) world1))) =
       [generate_export XLS_EXPORT ''xlsx'' ''bob'' ''tutorial'' 1 PNone (PStr ''/'') (PBool True)
          (PBool False)]"
    using T [THEN conjunct2, THEN conjunct2, THEN conjunct2, THEN conjunct1, THEN mp, OF t,
        THEN mp, OF r]
    by (simp add: dispatch_arguments_def options_map_def kw_default_def bob_form_def)
  have b: "generator_calls
        (new_events world1
           (snd (create_xls_export succeeding ''bob'' ''tutorial'' 1 PNone (PBool False)
                   (PStr ''/'') (PBool True) (PBool False) world1))) =
       [generate_export XLS_EXPORT ''xls'' ''bob'' ''tutorial'' 1 PNone (PStr ''/'') (PBool True)
          (PBool False)]"
    using T [THEN conjunct2, THEN conjunct2, THEN conjunct2, THEN conjunct2] r
    by simp
  show ?thesis
    using r a b T [THEN conjunct1] by (intro conjI)
qed

end
